theory Spec2Isabelle
  imports Main "HOL-Library.Word" "HOL-Library.Char_ord" "HOL-Library.List_Lexorder"
begin

section \<open>oatdump.cc: data model\<close>

text \<open>
  The embedding follows \<^verbatim>\<open>src/oatdump.cc\<close>. \<^verbatim>\<open>size_t\<close> and every pointer are words of
  one platform width \<open>'w\<close>; \<^verbatim>\<open>uint32_t\<close> is \<open>32 word\<close>. A null pointer is the word 0.
  Everything the file uses from headers that are not part of it (the object model's
  accessors, \<^verbatim>\<open>RoundUp\<close>, \<^verbatim>\<open>kObjectAlignment\<close>, whether \<^verbatim>\<open>DCHECK\<close> is compiled in, the class
  linker, \<^verbatim>\<open>DexFile::Open\<close>) is a field of a record that the functions take as input.
\<close>

subsection \<open>The output stream\<close>

text \<open>
  \<^verbatim>\<open>StringPrintf\<close>/\<^verbatim>\<open>StringAppendF\<close> and the stream's number formatting live outside the file.
  The stream is therefore the sequence of items written to it: literal text of the source,
  a streamed value, a format string with its arguments, or \<^verbatim>\<open>std::flush\<close>. A \<^verbatim>\<open>double\<close> is
  kept as the expression that computes it.
\<close>

datatype 'a dbl =
    ToDouble 'a
  | DDiv "'a dbl" "'a dbl"
  | DTimes100 "'a dbl"

datatype 'a arg =
    ArgStr string
  | ArgInt int
  | ArgU32 "32 word"
  | ArgSize 'a
  | ArgPtr 'a
  | ArgStatus int
  | ArgDouble "'a dbl"

datatype 'a out =
    Text string
  | Val "'a arg"
  | StringPrintf string "'a arg list"
  | Flush

abbreviation TAB :: char where
  "TAB \<equiv> CHR 0x09"

subsection \<open>Faults\<close>

text \<open>
  A failed \<^verbatim>\<open>CHECK\<close> aborts the process; so does a failed \<^verbatim>\<open>DCHECK\<close> where debug checks
  are compiled in, and a dereferenced null pointer. Each is a value \<open>Inl\<close> of the result.
\<close>

datatype fault =
    CHECK_failed string
  | DCHECK_failed string
  | NullPointerDereference string
  | IndexOutOfBounds string

definition CHECK :: "bool \<Rightarrow> string \<Rightarrow> (fault + 'a) \<Rightarrow> fault + 'a" where
  "CHECK cond what k = (if cond then k else Inl (CHECK_failed what))"

subsection \<open>The heap object model, as the accessors the file calls\<close>

record (overloaded) 'w Method =
  PrettyMethod :: string
  IsCalleeSaveMethod :: bool
  GetCode :: "'w word"
  GetInvokeStub :: "'w word"
  IsNative :: bool
  IsRegistered :: bool
  GetNativeMethod :: "'w word"
  IsAbstract :: bool
  GetGcMap :: "'w word"
  GetGcMapLength :: "'w word"
  GetMappingTable :: "'w word"
  GetMappingTableLength :: "'w word"
  GetCodeItem :: "32 word option"

text \<open>
  \<open>GetCodeItem\<close> is \<^verbatim>\<open>MethodHelper(method).GetCodeItem()\<close>: \<open>None\<close> for a null code item,
  otherwise its \<^verbatim>\<open>insns_size_in_code_units_\<close>.
  In \<open>Object\<close>, \<open>klass_descriptor\<close> and \<open>klass_status\<close> are \<^verbatim>\<open>ClassHelper(obj->AsClass())\<close>'s
  descriptor and \<^verbatim>\<open>AsClass()->GetStatus()\<close>; \<open>GetClass_descriptor\<close> is
  \<^verbatim>\<open>ClassHelper(obj->GetClass()).GetDescriptor()\<close>; \<open>ObjectArray_elems\<close> are the
  \<^verbatim>\<open>Get(i)\<close> for \<^verbatim>\<open>i < GetLength()\<close>. The capability checks are independent fields: the
  object model does not make them exclusive.
\<close>

record (overloaded) 'w Object =
  address :: "'w word"
  SizeOf :: "'w word"
  IsClass :: bool
  klass_descriptor :: string
  klass_status :: int
  IsMethod :: bool
  AsMethod :: "'w Method"
  IsField :: bool
  PrettyField :: string
  IsArrayInstance :: bool
  Array_GetLength :: int
  GetClass :: "'w word"
  GetClass_IsStringClass :: bool
  GetClass_descriptor :: string
  ToModifiedUtf8 :: string
  IsObjectArray :: bool
  ObjectArray_elems :: "'w word list"

record (overloaded) 'w Space =
  Contains :: "'w word \<Rightarrow> bool"

subsection \<open>Constants and macros of headers outside the file\<close>

record (overloaded) 'w config =
  kEnableDChecks :: bool
  kObjectAlignment :: "'w word"
  RoundUp :: "'w word \<Rightarrow> 'w word \<Rightarrow> 'w word"
  sizeof_ImageHeader :: "'w word"
  kImageRootsMax :: nat
  kOatLocation :: nat

definition DCHECK :: "'w::len config \<Rightarrow> bool \<Rightarrow> string \<Rightarrow> (fault + 'a) \<Rightarrow> fault + 'a" where
  "DCHECK cfg cond what k =
     (if kEnableDChecks cfg \<and> \<not> cond then Inl (DCHECK_failed what) else k)"

section \<open>ImageDump::Stats\<close>

text \<open>
  \<^verbatim>\<open>std::map<std::string, size_t>\<close>: an association list kept in the key order of
  \<^verbatim>\<open>std::string\<close> (bytewise lexicographic), which is the order \<^verbatim>\<open>Stats::Dump\<close> iterates in.
  \<open>Table_index\<close> is \<^verbatim>\<open>operator[]\<close>: it returns the value and inserts a zero entry for a
  missing key. \<open>Table_add m k n\<close> is \<^verbatim>\<open>m[k] += n\<close>.
\<close>

type_synonym 'w Table = "(string \<times> 'w word) list"

fun Table_insert :: "string \<Rightarrow> 'w::len word \<Rightarrow> 'w Table \<Rightarrow> 'w Table" where
  "Table_insert k v [] = [(k, v)]"
| "Table_insert k v ((k', v') # m) =
     (if k = k' then (k, v) # m
      else if k < k' then (k, v) # (k', v') # m
      else (k', v') # Table_insert k v m)"

definition Table_index :: "'w::len Table \<Rightarrow> string \<Rightarrow> 'w word \<times> 'w Table" where
  "Table_index m k =
     (case map_of m k of
        Some v \<Rightarrow> (v, m)
      | None \<Rightarrow> (0, Table_insert k 0 m))"

definition Table_add :: "'w::len Table \<Rightarrow> string \<Rightarrow> 'w word \<Rightarrow> 'w Table" where
  "Table_add m k n = (case Table_index m k of (v, m') \<Rightarrow> Table_insert k (v + n) m')"

record (overloaded) 'w Stats =
  file_bytes :: "'w word"
  header_bytes :: "'w word"
  object_bytes :: "'w word"
  alignment_bytes :: "'w word"
  managed_code_bytes :: "'w word"
  managed_to_native_code_bytes :: "'w word"
  native_to_managed_code_bytes :: "'w word"
  register_map_bytes :: "'w word"
  pc_mapping_table_bytes :: "'w word"
  dex_instruction_bytes :: "'w word"
  descriptor_to_bytes :: "'w Table"
  descriptor_to_count :: "'w Table"

text \<open>The constructor \<^verbatim>\<open>Stats()\<close>, lines 417-427; the two maps start empty.\<close>

definition Stats_init :: "'w::len Stats" where
  "Stats_init =
     \<lparr>file_bytes = 0, header_bytes = 0, object_bytes = 0, alignment_bytes = 0,
      managed_code_bytes = 0, managed_to_native_code_bytes = 0,
      native_to_managed_code_bytes = 0, register_map_bytes = 0,
      pc_mapping_table_bytes = 0, dex_instruction_bytes = 0,
      descriptor_to_bytes = [], descriptor_to_count = []\<rparr>"

section \<open>ImageDump: the visit callback\<close>

record (overloaded) 'w ImageDump =
  dump_space_of :: "'w Space"
  os_of :: "'w word out list"
  stats_of :: "'w Stats"

text \<open>The constructor, line 299.\<close>

definition ImageDump_init :: "'w::len Space \<Rightarrow> 'w word out list \<Rightarrow> 'w ImageDump" where
  "ImageDump_init dump_space os = \<lparr>dump_space_of = dump_space, os_of = os, stats_of = Stats_init\<rparr>"

text \<open>Lines 396-398.\<close>

definition InDumpSpace :: "'w::len ImageDump \<Rightarrow> 'w Object \<Rightarrow> bool" where
  "InDumpSpace state object = Contains (dump_space_of state) (address object)"

text \<open>Lines 316-338: the address and the category of the object, first match first.\<close>

definition Callback_category :: "'w::len Object \<Rightarrow> 'w word out list" where
  "Callback_category obj =
     [StringPrintf ''%p: '' [ArgPtr (address obj)]] @
     (if IsClass obj then
        [Text ''CLASS '', Val (ArgStr (klass_descriptor obj)),
         Text '' ('', Val (ArgStatus (klass_status obj)), Text '')'']
      else if IsMethod obj then
        [StringPrintf ''METHOD %s'' [ArgStr (PrettyMethod (AsMethod obj))]]
      else if IsField obj then
        [StringPrintf ''FIELD %s'' [ArgStr (PrettyField obj)]]
      else if IsArrayInstance obj then
        [StringPrintf ''ARRAY %d'' [ArgInt (Array_GetLength obj)]]
      else if GetClass_IsStringClass obj then
        [StringPrintf ''STRING %s'' [ArgStr (ToModifiedUtf8 obj)]]
      else
        [StringPrintf ''OBJECT'' []]) @
     [StringPrintf ''\<newline>'' []]"

text \<open>
  Lines 354-372: the three branches for native, abstract and callee-save methods end in
  the same three debug checks.
\<close>

definition DCHECK_no_maps ::
  "'w::len config \<Rightarrow> 'w Method \<Rightarrow> (fault + 'a) \<Rightarrow> fault + 'a" where
  "DCHECK_no_maps cfg method k =
     DCHECK cfg (GetGcMap method = 0) ''method->GetGcMap() == NULL''
       (DCHECK cfg (GetGcMapLength method = 0) ''0U == method->GetGcMapLength()''
         (DCHECK cfg (GetMappingTable method = 0) ''method->GetMappingTable() == NULL'' k))"

text \<open>
  Lines 346-391: the body of \<^verbatim>\<open>if (obj->IsMethod())\<close>, on the summary and the statistics
  built so far. \<^verbatim>\<open>insns_size_in_code_units_ * 2\<close> is a multiplication of 32-bit unsigned
  values, converted to \<^verbatim>\<open>size_t\<close> afterwards.
\<close>

definition Callback_method ::
  "'w::len config \<Rightarrow> 'w Method \<Rightarrow> 'w word out list \<Rightarrow> 'w Stats \<Rightarrow>
     fault + ('w word out list \<times> 'w Stats)" where
  "Callback_method cfg method summary stats =
     (let summary1 =
        (if \<not> IsCalleeSaveMethod method then
           summary @
           [StringPrintf (TAB # ''CODE     %p\<newline>'') [ArgPtr (GetCode method)],
            StringPrintf (TAB # ''JNI STUB %p\<newline>'') [ArgPtr (GetInvokeStub method)]]
         else summary)
      in
      if IsNative method then
        DCHECK_no_maps cfg method
          (Inr (summary1 @
                (if IsRegistered method then
                   [StringPrintf (TAB # ''NATIVE REGISTERED %p\<newline>'')
                      [ArgPtr (GetNativeMethod method)]]
                 else [StringPrintf (TAB # ''NATIVE UNREGISTERED\<newline>'') []]),
                stats))
      else if IsAbstract method then
        DCHECK_no_maps cfg method
          (Inr (summary1 @ [StringPrintf (TAB # ''ABSTRACT\<newline>'') []], stats))
      else if IsCalleeSaveMethod method then
        DCHECK_no_maps cfg method
          (Inr (summary1 @ [StringPrintf (TAB # ''CALLEE SAVE METHOD\<newline>'') []], stats))
      else
        DCHECK cfg (GetGcMap method \<noteq> 0) ''method->GetGcMap() != NULL''
          (DCHECK cfg (GetGcMapLength method \<noteq> 0) ''0U != method->GetGcMapLength()''
            (let register_map_bytes' = GetGcMapLength method;
                 pc_mapping_table_bytes' = GetMappingTableLength method
             in
             case GetCodeItem method of
               None \<Rightarrow> Inl (NullPointerDereference ''code_item'')
             | Some insns_size_in_code_units \<Rightarrow>
                 (let dex_instruction_bytes' = ucast (insns_size_in_code_units * 2) in
                  Inr (summary1 @
                       [StringPrintf ''GC=%zd '' [ArgSize register_map_bytes'],
                        StringPrintf ''Mapping=%zd '' [ArgSize pc_mapping_table_bytes'],
                        StringPrintf (TAB # ''SIZE Code=%zd GC=%zd Mapping=%zd'')
                          [ArgSize dex_instruction_bytes', ArgSize register_map_bytes',
                           ArgSize pc_mapping_table_bytes']],
                       stats
                         \<lparr>register_map_bytes :=
                            register_map_bytes stats + register_map_bytes',
                          pc_mapping_table_bytes :=
                            pc_mapping_table_bytes stats + pc_mapping_table_bytes',
                          dex_instruction_bytes :=
                            dex_instruction_bytes stats + dex_instruction_bytes'\<rparr>)))))"

text \<open>
  Lines 311-314 and 341-342: what every visited object adds to the statistics.
\<close>

definition Callback_stats :: "'w::len config \<Rightarrow> 'w Object \<Rightarrow> 'w Stats \<Rightarrow> 'w Stats" where
  "Callback_stats cfg obj stats =
     (let object_bytes' = SizeOf obj;
          alignment_bytes' = RoundUp cfg object_bytes' (kObjectAlignment cfg) - object_bytes';
          descriptor = GetClass_descriptor obj
      in stats
           \<lparr>object_bytes := object_bytes stats + object_bytes',
            alignment_bytes := alignment_bytes stats + alignment_bytes',
            descriptor_to_bytes := Table_add (descriptor_to_bytes stats) descriptor object_bytes',
            descriptor_to_count := Table_add (descriptor_to_count stats) descriptor 1\<rparr>)"

text \<open>Lines 316-340: the summary up to the line that names the object's class.\<close>

definition Callback_summary :: "'w::len Object \<Rightarrow> 'w word out list" where
  "Callback_summary obj =
     Callback_category obj @
     [StringPrintf (TAB # ''class %p: %s\<newline>'')
        [ArgPtr (GetClass obj), ArgStr (GetClass_descriptor obj)]]"

text \<open>
  Lines 303-394. \<^verbatim>\<open>arg\<close> is the state, which the model passes by value, so
  \<^verbatim>\<open>DCHECK(arg != NULL)\<close> has nothing to check. The summary is a local string: the stream
  receives it in line 393, after the checks.
\<close>

definition Callback ::
  "'w::len config \<Rightarrow> 'w Object \<Rightarrow> 'w ImageDump \<Rightarrow> fault + 'w ImageDump" where
  "Callback cfg obj state =
     DCHECK cfg (address obj \<noteq> 0) ''obj != NULL''
       (if \<not> InDumpSpace state obj then Inr state
        else
          case (if IsMethod obj then
                  Callback_method cfg (AsMethod obj) (Callback_summary obj)
                    (Callback_stats cfg obj (stats_of state))
                else Inr (Callback_summary obj, Callback_stats cfg obj (stats_of state))) of
            Inl f \<Rightarrow> Inl f
          | Inr (summary, stats) \<Rightarrow>
              Inr (state\<lparr>os_of := os_of state @ summary @ [Flush], stats_of := stats\<rparr>))"

text \<open>
  \<^verbatim>\<open>heap_bitmap->Walk(ImageDump::Callback, &state)\<close>, line 260: the callback once per live
  object, in the order the bitmap gives them; a fault ends the process.
\<close>

fun Walk :: "'w::len config \<Rightarrow> 'w Object list \<Rightarrow> 'w ImageDump \<Rightarrow> fault + 'w ImageDump" where
  "Walk cfg [] state = Inr state"
| "Walk cfg (obj # objs) state =
     (case Callback cfg obj state of
        Inl f \<Rightarrow> Inl f
      | Inr state' \<Rightarrow> Walk cfg objs state')"

section \<open>ImageDump::Stats::Dump\<close>

text \<open>Lines 435-441.\<close>

definition PercentOfFileBytes :: "'w::len Stats \<Rightarrow> 'w word \<Rightarrow> 'w word dbl" where
  "PercentOfFileBytes stats size' =
     DTimes100 (DDiv (ToDouble size') (ToDouble (file_bytes stats)))"

definition PercentOfObjectBytes :: "'w::len Stats \<Rightarrow> 'w word \<Rightarrow> 'w word dbl" where
  "PercentOfObjectBytes stats size' =
     DTimes100 (DDiv (ToDouble size') (ToDouble (object_bytes stats)))"

text \<open>Lines 465-470: the line of one descriptor.\<close>

definition Stats_Dump_line :: "'w::len Stats \<Rightarrow> string \<Rightarrow> 'w word \<Rightarrow> 'w word \<Rightarrow> 'w word out" where
  "Stats_Dump_line stats descriptor bytes count =
     (let average = DDiv (ToDouble bytes) (ToDouble count);
          percent = PercentOfObjectBytes stats bytes
      in StringPrintf
           (TAB # ''%32s %8zd bytes %6zd instances (%3.0f bytes/instance) %2.0f%% of object_bytes\<newline>'')
           [ArgStr descriptor, ArgSize bytes, ArgSize count, ArgDouble average, ArgDouble percent])"

text \<open>
  Lines 461-473: the loop over \<^verbatim>\<open>descriptor_to_bytes\<close>, on the entries still to visit. It
  carries \<^verbatim>\<open>descriptor_to_count\<close> (which \<^verbatim>\<open>operator[]\<close> may extend), the stream and
  \<^verbatim>\<open>object_bytes_total\<close>.
\<close>

fun Stats_Dump_loop ::
  "'w::len Stats \<Rightarrow> 'w Table \<Rightarrow> 'w Table \<Rightarrow> 'w word out list \<Rightarrow> 'w word \<Rightarrow>
     'w Table \<times> 'w word out list \<times> 'w word" where
  "Stats_Dump_loop stats [] counts os object_bytes_total = (counts, os, object_bytes_total)"
| "Stats_Dump_loop stats ((descriptor, bytes) # rest) counts os object_bytes_total =
     (case Table_index counts descriptor of
        (count, counts') \<Rightarrow>
          Stats_Dump_loop stats rest counts'
            (os @ [Stats_Dump_line stats descriptor bytes count])
            (object_bytes_total + bytes))"

text \<open>Lines 443-456: up to and including the first \<^verbatim>\<open>CHECK_EQ\<close>'s operands.\<close>

definition Stats_Dump_file_bytes :: "'w::len Stats \<Rightarrow> 'w word out list" where
  "Stats_Dump_file_bytes stats =
     [StringPrintf (TAB # ''file_bytes = %zd\<newline>'') [ArgSize (file_bytes stats)],
      Text ''\<newline>'',
      Text (TAB # ''file_bytes = header_bytes + object_bytes + alignment_bytes\<newline>''),
      StringPrintf (TAB # ''header_bytes    = %10zd (%2.0f%% of file_bytes)\<newline>'')
        [ArgSize (header_bytes stats),
         ArgDouble (PercentOfFileBytes stats (header_bytes stats))],
      StringPrintf (TAB # ''object_bytes    = %10zd (%2.0f%% of file_bytes)\<newline>'')
        [ArgSize (object_bytes stats),
         ArgDouble (PercentOfFileBytes stats (object_bytes stats))],
      StringPrintf (TAB # ''alignment_bytes = %10zd (%2.0f%% of file_bytes)\<newline>'')
        [ArgSize (alignment_bytes stats),
         ArgDouble (PercentOfFileBytes stats (alignment_bytes stats))],
      Text ''\<newline>'',
      Flush]"

text \<open>Lines 478-501: what follows the second \<^verbatim>\<open>CHECK_EQ\<close>.\<close>

definition Stats_Dump_code_bytes :: "'w::len Stats \<Rightarrow> 'w word out list" where
  "Stats_Dump_code_bytes stats =
     [StringPrintf (TAB # ''managed_code_bytes           = %8zd (%2.0f%% of object_bytes)\<newline>'')
        [ArgSize (managed_code_bytes stats),
         ArgDouble (PercentOfObjectBytes stats (managed_code_bytes stats))],
      StringPrintf (TAB # ''managed_to_native_code_bytes = %8zd (%2.0f%% of object_bytes)\<newline>'')
        [ArgSize (managed_to_native_code_bytes stats),
         ArgDouble (PercentOfObjectBytes stats (managed_to_native_code_bytes stats))],
      StringPrintf (TAB # ''native_to_managed_code_bytes = %8zd (%2.0f%% of object_bytes)\<newline>'')
        [ArgSize (native_to_managed_code_bytes stats),
         ArgDouble (PercentOfObjectBytes stats (native_to_managed_code_bytes stats))],
      Text ''\<newline>'',
      Flush,
      StringPrintf (TAB # ''register_map_bytes     = %7zd (%2.0f%% of object_bytes)\<newline>'')
        [ArgSize (register_map_bytes stats),
         ArgDouble (PercentOfObjectBytes stats (register_map_bytes stats))],
      StringPrintf (TAB # ''pc_mapping_table_bytes = %7zd (%2.0f%% of object_bytes)\<newline>'')
        [ArgSize (pc_mapping_table_bytes stats),
         ArgDouble (PercentOfObjectBytes stats (pc_mapping_table_bytes stats))],
      Text ''\<newline>'',
      Flush,
      StringPrintf (TAB # ''dex_instruction_bytes = %zd\<newline>'')
        [ArgSize (dex_instruction_bytes stats)],
      StringPrintf (TAB # ''managed_code_bytes expansion = %.2f\<newline>'')
        [ArgDouble (DDiv (ToDouble (managed_code_bytes stats))
                         (ToDouble (dex_instruction_bytes stats)))],
      Text ''\<newline>'',
      Flush]"

text \<open>
  Lines 443-502. The result is the statistics (with \<^verbatim>\<open>descriptor_to_count\<close> as the loop left
  it) and the stream, or the \<^verbatim>\<open>CHECK_EQ\<close> that failed.
\<close>

definition Stats_Dump ::
  "'w::len Stats \<Rightarrow> 'w word out list \<Rightarrow> fault + ('w Stats \<times> 'w word out list)" where
  "Stats_Dump stats os =
     CHECK (file_bytes stats = header_bytes stats + object_bytes stats + alignment_bytes stats)
       ''file_bytes == header_bytes + object_bytes + alignment_bytes''
       (case Stats_Dump_loop stats (descriptor_to_bytes stats) (descriptor_to_count stats)
               (os @ Stats_Dump_file_bytes stats @
                [Text (TAB # ''object_bytes = sum of descriptor_to_bytes values below:\<newline>'')])
               0 of
          (counts', os', object_bytes_total) \<Rightarrow>
            CHECK (object_bytes stats = object_bytes_total)
              ''object_bytes == object_bytes_total''
              (Inr (stats\<lparr>descriptor_to_count := counts'\<rparr>,
                    os' @ [Text ''\<newline>'', Flush] @ Stats_Dump_code_bytes stats)))"

section \<open>OatDump\<close>

subsection \<open>The compiled-code artifact, as the accessors the file calls\<close>

record OatHeader =
  OatHeader_GetMagic :: string
  GetChecksum :: "32 word"
  GetDexFileCount :: "32 word"
  GetExecutableOffset :: "32 word"

record (overloaded) 'w OatMethod =
  OatMethod_GetCode :: "'w word"
  GetCodeOffset :: "32 word"
  GetFrameSizeInBytes :: "'w word"
  GetCoreSpillMask :: "32 word"
  GetFpSpillMask :: "32 word"
  OatMethod_GetMappingTable :: "'w word"
  GetMappingTableOffset :: "32 word"
  GetVmapTable :: "'w word"
  GetVmapTableOffset :: "32 word"
  OatMethod_GetGcMap :: "'w word"
  GetGcMapOffset :: "32 word"
  OatMethod_GetInvokeStub :: "'w word"
  GetInvokeStubOffset :: "32 word"

record (overloaded) 'w OatClass =
  OatClass_GetStatus :: int
  GetOatMethod :: "32 word \<Rightarrow> 'w OatMethod"

text \<open>\<open>GetOatClass\<close> and the entries of \<open>GetOatDexFiles\<close> are pointers: \<open>None\<close> is null.\<close>

record (overloaded) 'w OatDexFile =
  GetDexFileLocation :: string
  GetDexFileLocationChecksum :: "32 word"
  GetOatClass :: "nat \<Rightarrow> 'w OatClass option"

record (overloaded) 'w OatFile =
  GetOatHeader :: OatHeader
  Begin :: "'w word"
  End :: "'w word"
  GetOatDexFiles :: "'w OatDexFile option list"

text \<open>
  Modelled from the spec: \<^verbatim>\<open>ClassDataItemIterator\<close> (dex_file.h is not part of the sources).
  The spec describes a shared cursor over the class's member entries: static fields, then
  instance fields, then direct methods, then virtual methods, and possibly a remainder.
  The cursor is the list of entries not yet read, each with its kind and its member
  index; \<open>Next\<close> drops the first one.
\<close>

datatype member_kind = StaticField | InstanceField | DirectMethod | VirtualMethod

type_synonym ClassDataItemIterator = "(member_kind \<times> 32 word) list"

definition HasNextKind :: "member_kind \<Rightarrow> ClassDataItemIterator \<Rightarrow> bool" where
  "HasNextKind kind it = (case it of [] \<Rightarrow> False | (kind', member_idx) # rest \<Rightarrow> kind' = kind)"

definition HasNextStaticField :: "ClassDataItemIterator \<Rightarrow> bool" where
  "HasNextStaticField it = HasNextKind StaticField it"

definition HasNextInstanceField :: "ClassDataItemIterator \<Rightarrow> bool" where
  "HasNextInstanceField it = HasNextKind InstanceField it"

definition HasNextDirectMethod :: "ClassDataItemIterator \<Rightarrow> bool" where
  "HasNextDirectMethod it = HasNextKind DirectMethod it"

definition HasNextVirtualMethod :: "ClassDataItemIterator \<Rightarrow> bool" where
  "HasNextVirtualMethod it = HasNextKind VirtualMethod it"

definition HasNext :: "ClassDataItemIterator \<Rightarrow> bool" where
  "HasNext it = (it \<noteq> [])"

definition Next :: "ClassDataItemIterator \<Rightarrow> ClassDataItemIterator" where
  "Next it = tl it"

definition GetMemberIndex :: "ClassDataItemIterator \<Rightarrow> 32 word" where
  "GetMemberIndex it = snd (hd it)"

text \<open>
  \<open>GetClassData\<close> is \<open>None\<close> for a null \<^verbatim>\<open>class_data\<close>. \<open>GetMethodName\<close> and
  \<open>GetMethodSignature\<close> take the method index (through \<^verbatim>\<open>GetMethodId\<close>).
\<close>

record ClassDef =
  class_idx :: "32 word"
  GetClassDescriptor :: string
  GetClassData :: "ClassDataItemIterator option"

record DexFile =
  class_defs :: "ClassDef list"
  GetMethodName :: "32 word \<Rightarrow> string"
  GetMethodSignature :: "32 word \<Rightarrow> string"

definition NumClassDefs :: "DexFile \<Rightarrow> nat" where
  "NumClassDefs dex_file = length (class_defs dex_file)"

definition GetClassDef :: "DexFile \<Rightarrow> nat \<Rightarrow> ClassDef" where
  "GetClassDef dex_file class_def_index = class_defs dex_file ! class_def_index"

subsection \<open>DumpOatMethod, lines 184-211\<close>

definition DumpOatMethod ::
  "'w::len word out list \<Rightarrow> 32 word \<Rightarrow> 'w OatFile \<Rightarrow> 'w OatMethod \<Rightarrow> DexFile \<Rightarrow> 32 word \<Rightarrow>
     'w word out list" where
  "DumpOatMethod os method_index oat_file oat_method dex_file method_idx =
     os @
     [StringPrintf (TAB # ''%d: %s %s (method_idx=%d)\<newline>'')
        [ArgU32 method_index, ArgStr (GetMethodName dex_file method_idx),
         ArgStr (GetMethodSignature dex_file method_idx), ArgU32 method_idx],
      StringPrintf (TAB # TAB # ''code: %p (offset=%08x)\<newline>'')
        [ArgPtr (OatMethod_GetCode oat_method), ArgU32 (GetCodeOffset oat_method)],
      StringPrintf (TAB # TAB # ''frame_size_in_bytes: %zd\<newline>'')
        [ArgSize (GetFrameSizeInBytes oat_method)],
      StringPrintf (TAB # TAB # ''core_spill_mask: %08x\<newline>'')
        [ArgU32 (GetCoreSpillMask oat_method)],
      StringPrintf (TAB # TAB # ''fp_spill_mask: %08x\<newline>'')
        [ArgU32 (GetFpSpillMask oat_method)],
      StringPrintf (TAB # TAB # ''mapping_table: %p (offset=%08x)\<newline>'')
        [ArgPtr (OatMethod_GetMappingTable oat_method), ArgU32 (GetMappingTableOffset oat_method)],
      StringPrintf (TAB # TAB # ''vmap_table: %p (offset=%08x)\<newline>'')
        [ArgPtr (GetVmapTable oat_method), ArgU32 (GetVmapTableOffset oat_method)],
      StringPrintf (TAB # TAB # ''gc_map: %p (offset=%08x)\<newline>'')
        [ArgPtr (OatMethod_GetGcMap oat_method), ArgU32 (GetGcMapOffset oat_method)],
      StringPrintf (TAB # TAB # ''invoke_stub: %p (offset=%08x)\<newline>'')
        [ArgPtr (OatMethod_GetInvokeStub oat_method), ArgU32 (GetInvokeStubOffset oat_method)]]"

subsection \<open>DumpOatClass, lines 149-183\<close>

text \<open>Lines 161-163 and 164-166: the two loops that only advance the iterator.\<close>

function skip_static_fields :: "ClassDataItemIterator \<Rightarrow> ClassDataItemIterator" where
  "skip_static_fields it =
     (if HasNextStaticField it then skip_static_fields (Next it) else it)"
  by pat_completeness auto
termination
  by (relation "measure length")
     (auto simp: HasNextStaticField_def HasNextKind_def Next_def split: list.splits)

function skip_instance_fields :: "ClassDataItemIterator \<Rightarrow> ClassDataItemIterator" where
  "skip_instance_fields it =
     (if HasNextInstanceField it then skip_instance_fields (Next it) else it)"
  by pat_completeness auto
termination
  by (relation "measure length")
     (auto simp: HasNextInstanceField_def HasNextKind_def Next_def split: list.splits)

text \<open>
  Lines 169-174 and 175-180: the two method loops, on the stream, \<^verbatim>\<open>method_index\<close>
  (a \<^verbatim>\<open>uint32_t\<close>) and the iterator.
\<close>

function dump_direct_methods ::
  "'w::len OatFile \<Rightarrow> 'w OatClass \<Rightarrow> DexFile \<Rightarrow>
     'w word out list \<times> 32 word \<times> ClassDataItemIterator \<Rightarrow>
     'w word out list \<times> 32 word \<times> ClassDataItemIterator" where
  "dump_direct_methods oat_file oat_class dex_file (os, method_index, it) =
     (if HasNextDirectMethod it then
        dump_direct_methods oat_file oat_class dex_file
          (DumpOatMethod os method_index oat_file (GetOatMethod oat_class method_index)
             dex_file (GetMemberIndex it),
           method_index + 1, Next it)
      else (os, method_index, it))"
  by pat_completeness auto
termination
  by (relation "measure (\<lambda>(oat_file, oat_class, dex_file, os, method_index, it). length it)")
     (auto simp: HasNextDirectMethod_def HasNextKind_def Next_def split: list.splits)

function dump_virtual_methods ::
  "'w::len OatFile \<Rightarrow> 'w OatClass \<Rightarrow> DexFile \<Rightarrow>
     'w word out list \<times> 32 word \<times> ClassDataItemIterator \<Rightarrow>
     'w word out list \<times> 32 word \<times> ClassDataItemIterator" where
  "dump_virtual_methods oat_file oat_class dex_file (os, method_index, it) =
     (if HasNextVirtualMethod it then
        dump_virtual_methods oat_file oat_class dex_file
          (DumpOatMethod os method_index oat_file (GetOatMethod oat_class method_index)
             dex_file (GetMemberIndex it),
           method_index + 1, Next it)
      else (os, method_index, it))"
  by pat_completeness auto
termination
  by (relation "measure (\<lambda>(oat_file, oat_class, dex_file, os, method_index, it). length it)")
     (auto simp: HasNextVirtualMethod_def HasNextKind_def Next_def split: list.splits)

text \<open>Lines 158-180: the iterator over \<^verbatim>\<open>class_data\<close> taken through the four loops.\<close>

definition DumpOatClass_walk ::
  "'w::len word out list \<Rightarrow> 'w OatFile \<Rightarrow> 'w OatClass \<Rightarrow> DexFile \<Rightarrow> ClassDataItemIterator \<Rightarrow>
     'w word out list \<times> 32 word \<times> ClassDataItemIterator" where
  "DumpOatClass_walk os oat_file oat_class dex_file class_data =
     dump_virtual_methods oat_file oat_class dex_file
       (dump_direct_methods oat_file oat_class dex_file
          (os, 0, skip_instance_fields (skip_static_fields class_data)))"

definition DumpOatClass ::
  "'w::len config \<Rightarrow> 'w word out list \<Rightarrow> 'w OatFile \<Rightarrow> 'w OatClass \<Rightarrow> DexFile \<Rightarrow> ClassDef \<Rightarrow>
     fault + 'w word out list" where
  "DumpOatClass cfg os oat_file oat_class dex_file class_def =
     (case GetClassData class_def of
        None \<Rightarrow> Inr os
      | Some class_data \<Rightarrow>
          (case DumpOatClass_walk os oat_file oat_class dex_file class_data of
             (os', method_index, it) \<Rightarrow>
               DCHECK cfg (\<not> HasNext it) ''!it.HasNext()'' (Inr (os' @ [Flush]))))"

subsection \<open>The services the dump calls, and the trace of its lookups\<close>

text \<open>
  \<open>OS_OpenFile_Length\<close> is \<^verbatim>\<open>OS::OpenFile(name, false)\<close> followed by \<^verbatim>\<open>Length()\<close>: \<open>None\<close> when
  the file pointer is null. \<open>DexFile_Open\<close> and \<open>OatFile_Open\<close> are \<open>None\<close> for a null result.
  \<open>Runtime_Create\<close> takes the option list (a name and a pointer, null or a string).
\<close>

record (overloaded) 'w ImageHeader =
  IsValid :: bool
  ImageHeader_GetMagic :: string
  GetImageBegin :: "'w word"
  GetOatChecksum :: "32 word"
  GetOatBegin :: "'w word"
  GetOatEnd :: "'w word"
  GetImageRoots :: "'w word"
  GetImageRoot :: "nat \<Rightarrow> 'w Object"

record (overloaded) 'w ImageSpace =
  as_Space :: "'w Space"
  GetImageHeader :: "'w ImageHeader"

record (overloaded) 'w Runtime =
  Heap_GetSpaces :: "'w ImageSpace option list"
  Heap_GetLiveBits :: "'w Object list option"
  FindOatFileFromOatLocation :: "string \<Rightarrow> 'w OatFile option"

record (overloaded) 'w system =
  cfg_of :: "'w config"
  OS_OpenFile_Length :: "string \<Rightarrow> 'w word option"
  DexFile_Open :: "string \<Rightarrow> DexFile option"
  OatFile_Open :: "string \<Rightarrow> 'w OatFile option"
  ofstream_good :: "string \<Rightarrow> bool"
  Runtime_Create :: "(string \<times> string option) list \<Rightarrow> 'w Runtime option"

text \<open>
  The lookups by location are effects: the model records each one, with the string it
  was given, next to the stream.
\<close>

datatype call =
    Call_OS_OpenFile string
  | Call_FindOatFileFromOatLocation string
  | Call_DexFile_Open string

record (overloaded) 'w io =
  stream :: "'w word out list"
  calls :: "call list"

definition and_then :: "(fault + 'a) \<Rightarrow> ('a \<Rightarrow> fault + 'b) \<Rightarrow> fault + 'b" where
  "and_then r k = (case r of Inl f \<Rightarrow> Inl f | Inr x \<Rightarrow> k x)"

subsection \<open>DumpOatDexFile, lines 118-147\<close>

text \<open>Lines 136-144: the loop over the class definitions, from \<open>class_def_index\<close> on.\<close>

function DumpOatDexFile_classes ::
  "'w::len config \<Rightarrow> 'w OatFile \<Rightarrow> 'w OatDexFile \<Rightarrow> DexFile \<Rightarrow> nat \<Rightarrow> 'w word out list \<Rightarrow>
     fault + 'w word out list" where
  "DumpOatDexFile_classes cfg oat_file oat_dex_file dex_file class_def_index os =
     (if class_def_index < NumClassDefs dex_file then
        (case GetOatClass oat_dex_file class_def_index of
           None \<Rightarrow> Inl (CHECK_failed ''oat_class.get() != NULL'')
         | Some oat_class \<Rightarrow>
             (case DumpOatClass cfg
                     (os @
                      [StringPrintf ''%zd: %s (type_idx=%d) (''
                         [ArgSize (of_nat class_def_index),
                          ArgStr (GetClassDescriptor (GetClassDef dex_file class_def_index)),
                          ArgU32 (class_idx (GetClassDef dex_file class_def_index))],
                       Val (ArgStatus (OatClass_GetStatus oat_class)),
                       Text '')\<newline>''])
                     oat_file oat_class dex_file (GetClassDef dex_file class_def_index) of
                Inl f \<Rightarrow> Inl f
              | Inr os' \<Rightarrow>
                  DumpOatDexFile_classes cfg oat_file oat_dex_file dex_file
                    (class_def_index + 1) os'))
      else Inr os)"
  by pat_completeness auto
termination
  by (relation "measure (\<lambda>(cfg, oat_file, oat_dex_file, dex_file, class_def_index, os).
                  NumClassDefs dex_file - class_def_index)") auto

definition DumpOatDexFile ::
  "'w::len system \<Rightarrow> string \<Rightarrow> 'w io \<Rightarrow> 'w OatFile \<Rightarrow> 'w OatDexFile \<Rightarrow> fault + 'w io" where
  "DumpOatDexFile sys host_prefix io oat_file oat_dex_file =
     (let os1 = stream io @
                [Text ''OAT DEX FILE:\<newline>'', Text ''location: '',
                 Val (ArgStr (GetDexFileLocation oat_dex_file))];
          dex_file_location =
            (if host_prefix \<noteq> [] then host_prefix @ GetDexFileLocation oat_dex_file
             else GetDexFileLocation oat_dex_file);
          os2 = (if host_prefix \<noteq> []
                 then os1 @ [Text '' ('', Val (ArgStr dex_file_location), Text '')'']
                 else os1);
          os3 = os2 @ [Text ''\<newline>'',
                       StringPrintf ''checksum: %08x\<newline>''
                         [ArgU32 (GetDexFileLocationChecksum oat_dex_file)]];
          calls' = calls io @ [Call_DexFile_Open dex_file_location]
      in
      case DexFile_Open sys dex_file_location of
        None \<Rightarrow> Inr \<lparr>stream = os3 @ [Text ''NOT FOUND\<newline>\<newline>''], calls = calls'\<rparr>
      | Some dex_file \<Rightarrow>
          and_then (DumpOatDexFile_classes (cfg_of sys) oat_file oat_dex_file dex_file 0 os3)
            (\<lambda>os4. Inr \<lparr>stream = os4 @ [Flush], calls = calls'\<rparr>))"

subsection \<open>OatDump::Dump, lines 83-115\<close>

text \<open>Lines 110-114: the loop over \<^verbatim>\<open>oat_dex_files\<close>.\<close>

fun OatDump_Dump_files ::
  "'w::len system \<Rightarrow> string \<Rightarrow> 'w OatFile \<Rightarrow> 'w OatDexFile option list \<Rightarrow> 'w io \<Rightarrow>
     fault + 'w io" where
  "OatDump_Dump_files sys host_prefix oat_file [] io = Inr io"
| "OatDump_Dump_files sys host_prefix oat_file (oat_dex_file # rest) io =
     (case oat_dex_file of
        None \<Rightarrow> Inl (CHECK_failed ''oat_dex_file != NULL'')
      | Some f \<Rightarrow>
          and_then (DumpOatDexFile sys host_prefix io oat_file f)
            (OatDump_Dump_files sys host_prefix oat_file rest))"

definition OatDump_Dump ::
  "'w::len system \<Rightarrow> string \<Rightarrow> string \<Rightarrow> 'w io \<Rightarrow> 'w OatFile \<Rightarrow> fault + 'w io" where
  "OatDump_Dump sys oat_filename host_prefix io oat_file =
     OatDump_Dump_files sys host_prefix oat_file (GetOatDexFiles oat_file)
       (io\<lparr>stream := stream io @
          [Text ''MAGIC:\<newline>'',
           Val (ArgStr (OatHeader_GetMagic (GetOatHeader oat_file))), Text ''\<newline>\<newline>'',
           Text ''CHECKSUM:\<newline>'',
           StringPrintf ''%08x\<newline>\<newline>'' [ArgU32 (GetChecksum (GetOatHeader oat_file))],
           Text ''DEX FILE COUNT:\<newline>'',
           Val (ArgU32 (GetDexFileCount (GetOatHeader oat_file))), Text ''\<newline>\<newline>'',
           Text ''EXECUTABLE OFFSET:\<newline>'',
           StringPrintf ''%08x\<newline>\<newline>''
             [ArgU32 (GetExecutableOffset (GetOatHeader oat_file))],
           Text ''BEGIN:\<newline>'', Val (ArgPtr (Begin oat_file)), Text ''\<newline>\<newline>'',
           Text ''END:\<newline>'', Val (ArgPtr (End oat_file)), Text ''\<newline>\<newline>'',
           Flush]\<rparr>)"

section \<open>ImageDump::Dump, lines 216-295\<close>

text \<open>Lines 67-79.\<close>

definition image_roots_descriptions :: "string list" where
  "image_roots_descriptions =
     [''kJniStubArray'', ''kAbstractMethodErrorStubArray'', ''kInstanceResolutionStubArray'',
      ''kStaticResolutionStubArray'', ''kUnknownMethodResolutionStubArray'',
      ''kCalleeSaveMethod'', ''kRefsOnlySaveMethod'', ''kRefsAndArgsSaveMethod'',
      ''kOatLocation'', ''kDexCaches'', ''kClassRoots'']"

text \<open>Lines 221-237.\<close>

definition ImageDump_Dump_header :: "'w::len ImageHeader \<Rightarrow> 'w word out list" where
  "ImageDump_Dump_header image_header =
     [Text ''MAGIC:\<newline>'', Val (ArgStr (ImageHeader_GetMagic image_header)),
      Text ''\<newline>\<newline>'',
      Text ''IMAGE BEGIN:\<newline>'', Val (ArgPtr (GetImageBegin image_header)),
      Text ''\<newline>\<newline>'',
      Text ''OAT CHECKSUM:\<newline>'',
      StringPrintf ''%08x\<newline>\<newline>'' [ArgU32 (GetOatChecksum image_header)],
      Text ''OAT BEGIN:\<newline>'', Val (ArgPtr (GetOatBegin image_header)),
      Text ''\<newline>\<newline>'',
      Text ''OAT END:\<newline>'', Val (ArgPtr (GetOatEnd image_header)),
      Text ''\<newline>\<newline>'',
      Text ''ROOTS:\<newline>'', Val (ArgPtr (GetImageRoots image_header)), Text ''\<newline>'']"

text \<open>
  Lines 239-253: the loop over the image roots, on the indices still to visit. A null
  root is dereferenced by \<^verbatim>\<open>IsObjectArray\<close>.
\<close>

fun ImageDump_Dump_roots ::
  "'w::len ImageHeader \<Rightarrow> nat list \<Rightarrow> 'w word out list \<Rightarrow> fault + 'w word out list" where
  "ImageDump_Dump_roots image_header [] os = Inr os"
| "ImageDump_Dump_roots image_header (i # rest) os =
     (let image_root_description = image_roots_descriptions ! i;
          image_root_object = GetImageRoot image_header i;
          os1 = os @ [StringPrintf ''%s: %p\<newline>''
                        [ArgStr image_root_description, ArgPtr (address image_root_object)]]
      in
      if address image_root_object = 0 then Inl (NullPointerDereference ''image_root_object'')
      else
        ImageDump_Dump_roots image_header rest
          (if IsObjectArray image_root_object then
             os1 @ map (\<lambda>(j, p). StringPrintf (TAB # ''%d: %p\<newline>'') [ArgInt (int j), ArgPtr p])
                     (enumerate 0 (ObjectArray_elems image_root_object))
           else os1))"

text \<open>
  Lines 256-261: the traversal. \<^verbatim>\<open>Walk\<close> on a null bitmap is a null dereference where
  the debug check is compiled out.
\<close>

definition ImageDump_Dump_objects ::
  "'w::len config \<Rightarrow> 'w Runtime \<Rightarrow> 'w Space \<Rightarrow> 'w word out list \<Rightarrow> fault + 'w ImageDump" where
  "ImageDump_Dump_objects cfg runtime image_space os =
     (let state = ImageDump_init image_space (os @ [Text ''OBJECTS:\<newline>'', Flush]) in
      DCHECK cfg (Heap_GetLiveBits runtime \<noteq> None) ''heap_bitmap != NULL''
        (case Heap_GetLiveBits runtime of
           None \<Rightarrow> Inl (NullPointerDereference ''heap_bitmap'')
         | Some live_objects \<Rightarrow>
             and_then (Walk cfg live_objects state)
               (\<lambda>state'. Inr (state'\<lparr>os_of := os_of state' @ [Text ''\<newline>'']\<rparr>))))"

text \<open>Lines 264-269: the statistics as \<^verbatim>\<open>Stats::Dump\<close> receives them.\<close>

definition finalize_stats :: "'w::len config \<Rightarrow> 'w word \<Rightarrow> 'w Stats \<Rightarrow> 'w Stats" where
  "finalize_stats cfg file_length stats =
     (let header_bytes' = sizeof_ImageHeader cfg;
          alignment_bytes' = RoundUp cfg header_bytes' (kObjectAlignment cfg) - header_bytes'
      in stats\<lparr>file_bytes := file_length,
               header_bytes := header_bytes',
               alignment_bytes := alignment_bytes stats + alignment_bytes'\<rparr>)"

text \<open>Lines 263-273, on the state the traversal left.\<close>

definition ImageDump_Dump_stats ::
  "'w::len system \<Rightarrow> string \<Rightarrow> 'w ImageDump \<Rightarrow> call list \<Rightarrow> fault + ('w Stats \<times> 'w io)" where
  "ImageDump_Dump_stats sys image_filename state calls0 =
     (case OS_OpenFile_Length sys image_filename of
        None \<Rightarrow> Inl (NullPointerDereference ''file'')
      | Some file_length \<Rightarrow>
          and_then
            (Stats_Dump (finalize_stats (cfg_of sys) file_length (stats_of state))
               (os_of state @ [Text ''STATS:\<newline>'', Flush]))
            (\<lambda>(stats', os').
               Inr (stats',
                    \<lparr>stream = os' @ [Text ''\<newline>'', Flush],
                     calls = calls0 @ [Call_OS_OpenFile image_filename]\<rparr>)))"

text \<open>Lines 275-294.\<close>

definition ImageDump_Dump_oat_location ::
  "'w::len system \<Rightarrow> 'w Runtime \<Rightarrow> string \<Rightarrow> 'w ImageHeader \<Rightarrow> 'w io \<Rightarrow> fault + 'w io" where
  "ImageDump_Dump_oat_location sys runtime host_prefix image_header io =
     (let oat_location_object = GetImageRoot image_header (kOatLocation (cfg_of sys)) in
      if address oat_location_object = 0
      then Inl (NullPointerDereference ''oat_location_object'')
      else
        let stored_location = ToModifiedUtf8 oat_location_object;
            os1 = stream io @ [Text ''OAT LOCATION:\<newline>'', Flush, Val (ArgStr stored_location)];
            oat_location =
              (if host_prefix \<noteq> [] then host_prefix @ stored_location else stored_location);
            os2 = (if host_prefix \<noteq> []
                   then os1 @ [Text '' ('', Val (ArgStr oat_location), Text '')'']
                   else os1);
            os3 = os2 @ [Text ''\<newline>''];
            calls' = calls io @ [Call_FindOatFileFromOatLocation oat_location]
        in
        case FindOatFileFromOatLocation runtime oat_location of
          None \<Rightarrow> Inr \<lparr>stream = os3 @ [Text ''NOT FOUND\<newline>'', Flush], calls = calls'\<rparr>
        | Some oat_file \<Rightarrow>
            OatDump_Dump sys oat_location host_prefix
              \<lparr>stream = os3 @ [Text ''\<newline>'', Flush], calls = calls'\<rparr> oat_file)"

text \<open>Lines 221-273: everything before the companion artifact is looked up.\<close>

definition ImageDump_Dump_heap ::
  "'w::len system \<Rightarrow> 'w Runtime \<Rightarrow> string \<Rightarrow> 'w io \<Rightarrow> 'w Space \<Rightarrow> 'w ImageHeader \<Rightarrow>
     fault + 'w io" where
  "ImageDump_Dump_heap sys runtime image_filename io image_space image_header =
     CHECK (length image_roots_descriptions = kImageRootsMax (cfg_of sys))
       ''arraysize(image_roots_descriptions_) == size_t(ImageHeader::kImageRootsMax)''
       (and_then
          (ImageDump_Dump_roots image_header [0..<kImageRootsMax (cfg_of sys)]
             (stream io @ ImageDump_Dump_header image_header))
          (\<lambda>os1.
             and_then
               (ImageDump_Dump_objects (cfg_of sys) runtime image_space (os1 @ [Text ''\<newline>'']))
               (\<lambda>state.
                  and_then (ImageDump_Dump_stats sys image_filename state (calls io))
                    (\<lambda>(stats, io'). Inr io'))))"

definition ImageDump_Dump ::
  "'w::len system \<Rightarrow> 'w Runtime \<Rightarrow> string \<Rightarrow> string \<Rightarrow> 'w io \<Rightarrow> 'w Space \<Rightarrow> 'w ImageHeader \<Rightarrow>
     fault + 'w io" where
  "ImageDump_Dump sys runtime image_filename host_prefix io image_space image_header =
     and_then (ImageDump_Dump_heap sys runtime image_filename io image_space image_header)
       (ImageDump_Dump_oat_location sys runtime host_prefix image_header)"

section \<open>oatdump, lines 512-608\<close>

definition EXIT_SUCCESS :: int where
  "EXIT_SUCCESS = 0"

definition EXIT_FAILURE :: int where
  "EXIT_FAILURE = 1"

text \<open>
  How the process ends when it does not abort: the exit status, the file that \<^verbatim>\<open>--output\<close>
  named (\<open>None\<close> for \<^verbatim>\<open>std::cout\<close>), what was written there with the lookups made, and what
  was written to \<^verbatim>\<open>stderr\<close>.
\<close>

record (overloaded) 'w finished =
  exit_status :: int
  written_to :: "string option"
  final_io :: "'w io"
  final_stderr :: "'w word out list"

text \<open>Lines 37-65: what \<^verbatim>\<open>usage\<close> prints before \<^verbatim>\<open>exit(EXIT_FAILURE)\<close>.\<close>

definition usage :: "'a out list" where
  "usage =
     [Text (''Usage: oatdump [options] ...\<newline>'' @
            ''    Example: oatdump --image=$ANDROID_PRODUCT_OUT/system/framework/boot.art --host-prefix=$ANDROID_PRODUCT_OUT\<newline>'' @
            ''    Example: adb shell oatdump --image=/system/framework/boot.art\<newline>'' @
            ''\<newline>''),
      Text (''  --oat-file=<file.oat>: specifies an input oat filename.\<newline>'' @
            ''      Example: --image=/system/framework/boot.oat\<newline>'' @
            ''\<newline>''),
      Text (''  --image=<file.art>: specifies an input image filename.\<newline>'' @
            ''      Example: --image=/system/framework/boot.art\<newline>'' @
            ''\<newline>''),
      Text (''  --boot-image=<file.art>: provide the image file for the boot class path.\<newline>'' @
            ''      Example: --boot-image=/system/framework/boot.art\<newline>'' @
            ''\<newline>''),
      Text (''  --host-prefix may be used to translate host paths to target paths during\<newline>'' @
            ''      cross compilation.\<newline>'' @
            ''      Example: --host-prefix=out/target/product/crespo\<newline>'' @
            ''\<newline>''),
      Text (''  --output=<file> may be used to send the output to a file.\<newline>'' @
            ''      Example: --output=/tmp/oatdump.txt\<newline>'' @
            ''\<newline>'')]"

record arguments =
  arg_oat_filename :: "string option"
  arg_image_filename :: "string option"
  arg_boot_image_filename :: "string option"
  arg_host_prefix :: string
  arg_output :: "string option"

definition starts_with :: "string \<Rightarrow> string \<Rightarrow> bool" where
  "starts_with option' x = (take (length x) option' = x)"

definition substr :: "string \<Rightarrow> nat \<Rightarrow> string" where
  "substr option' pos = drop pos option'"

text \<open>
  Lines 529-551: the loop over the arguments after \<^verbatim>\<open>argv[0]\<close>. \<open>Inl\<close> is what was written
  to \<^verbatim>\<open>stderr\<close> when the loop ends in \<^verbatim>\<open>usage\<close>.
\<close>

fun parse_options ::
  "'w::len system \<Rightarrow> string list \<Rightarrow> arguments \<Rightarrow> 'w word out list + arguments" where
  "parse_options sys [] a = Inr a"
| "parse_options sys (option' # rest) a =
     (if starts_with option' ''--oat-file='' then
        parse_options sys rest
          (a\<lparr>arg_oat_filename := Some (substr option' (length ''--oat-file=''))\<rparr>)
      else if starts_with option' ''--image='' then
        parse_options sys rest
          (a\<lparr>arg_image_filename := Some (substr option' (length ''--image=''))\<rparr>)
      else if starts_with option' ''--boot-image='' then
        parse_options sys rest
          (a\<lparr>arg_boot_image_filename := Some (substr option' (length ''--boot-image=''))\<rparr>)
      else if starts_with option' ''--host-prefix='' then
        parse_options sys rest
          (a\<lparr>arg_host_prefix := substr option' (length ''--host-prefix='')\<rparr>)
      else if starts_with option' ''--output='' then
        (let filename = substr option' (length ''--output='') in
         if \<not> ofstream_good sys filename then
           Inl (StringPrintf ''Failed to open output filename %s\<newline>'' [ArgStr filename] # usage)
         else parse_options sys rest (a\<lparr>arg_output := Some filename\<rparr>))
      else
        Inl (StringPrintf ''Unknown argument %s\<newline>'' [ArgStr option'] # usage))"

definition exit_failure :: "'w::len word out list \<Rightarrow> 'w finished" where
  "exit_failure err =
     \<lparr>exit_status = EXIT_FAILURE, written_to = None,
      final_io = \<lparr>stream = [], calls = []\<rparr>, final_stderr = err\<rparr>"

definition exit_success :: "string option \<Rightarrow> 'w::len io \<Rightarrow> 'w finished" where
  "exit_success file io =
     \<lparr>exit_status = EXIT_SUCCESS, written_to = file, final_io = io, final_stderr = []\<rparr>"

text \<open>Lines 573-591: the options handed to \<^verbatim>\<open>Runtime::Create\<close>.\<close>

definition runtime_options :: "arguments \<Rightarrow> string \<Rightarrow> (string \<times> string option) list" where
  "runtime_options a image_filename =
     (case arg_boot_image_filename a of
        None \<Rightarrow> []
      | Some boot_image_filename \<Rightarrow> [(''-Ximage:'' @ boot_image_filename, None)]) @
     [(''-Ximage:'' @ image_filename, None)] @
     (if arg_host_prefix a \<noteq> [] then [(''host-prefix'', Some (arg_host_prefix a))] else [])"

text \<open>Lines 573-608: the heap-snapshot path, on the parsed arguments.\<close>

definition oatdump_image ::
  "'w::len system \<Rightarrow> arguments \<Rightarrow> string \<Rightarrow> fault + 'w finished" where
  "oatdump_image sys a image_filename =
     (case Runtime_Create sys (runtime_options a image_filename) of
        None \<Rightarrow> Inr (exit_failure [Text ''Failed to create runtime\<newline>''])
      | Some runtime \<Rightarrow>
          if length (Heap_GetSpaces runtime) < 2
          then Inl (IndexOutOfBounds ''Heap::GetSpaces()[Heap::GetSpaces().size()-2]'')
          else
            (case Heap_GetSpaces runtime ! (length (Heap_GetSpaces runtime) - 2) of
               None \<Rightarrow> Inl (CHECK_failed ''image_space != NULL'')
             | Some image_space \<Rightarrow>
                 if \<not> IsValid (GetImageHeader image_space) then
                   Inr (exit_failure
                          [StringPrintf ''Invalid image header %s\<newline>'' [ArgStr image_filename]])
                 else
                   and_then
                     (ImageDump_Dump sys runtime image_filename (arg_host_prefix a)
                        \<lparr>stream = [], calls = []\<rparr> (as_Space image_space)
                        (GetImageHeader image_space))
                     (\<lambda>io. Inr (exit_success (arg_output a) io))))"

text \<open>Lines 522-527: the variables before the first argument is read.\<close>

definition arguments_init :: arguments where
  "arguments_init =
     \<lparr>arg_oat_filename = None, arg_image_filename = None,
      arg_boot_image_filename = None, arg_host_prefix = [], arg_output = None\<rparr>"

text \<open>Lines 512-608, on the arguments after \<^verbatim>\<open>argv[0]\<close>.\<close>

definition oatdump :: "'w::len system \<Rightarrow> string list \<Rightarrow> fault + 'w finished" where
  "oatdump sys args =
     (if args = [] then Inr (exit_failure (Text ''No arguments specified\<newline>'' # usage))
      else
        case parse_options sys args arguments_init of
          Inl err \<Rightarrow> Inr (exit_failure err)
        | Inr a \<Rightarrow>
            if arg_image_filename a = None \<and> arg_oat_filename a = None then
              Inr (exit_failure [Text ''Either --image or --oat must be specified\<newline>''])
            else if arg_image_filename a \<noteq> None \<and> arg_oat_filename a \<noteq> None then
              Inr (exit_failure
                     [Text ''Either --image or --oat must be specified but not both\<newline>''])
            else
              (case arg_oat_filename a of
                 Some oat_filename \<Rightarrow>
                   (case OatFile_Open sys oat_filename of
                      None \<Rightarrow>
                        Inr (exit_failure
                               [StringPrintf ''Failed to open oat file from %s\<newline>''
                                  [ArgStr oat_filename]])
                    | Some oat_file \<Rightarrow>
                        and_then
                          (OatDump_Dump sys oat_filename (arg_host_prefix a)
                             \<lparr>stream = [], calls = []\<rparr> oat_file)
                          (\<lambda>io. Inr (exit_success (arg_output a) io)))
               | None \<Rightarrow>
                   (case arg_image_filename a of
                      None \<Rightarrow> Inr (exit_failure [])  \<comment> \<open>not reached: line 553 has returned\<close>
                    | Some image_filename \<Rightarrow> oatdump_image sys a image_filename)))"

section \<open>Definitions for the statements\<close>

subsection \<open>What a visit wrote, and the execution kind of a method\<close>

definition written :: "'w::len ImageDump \<Rightarrow> 'w ImageDump \<Rightarrow> 'w word out list" where
  "written state state' = drop (length (os_of state)) (os_of state')"

text \<open>The last \<^verbatim>\<open>else\<close> of lines 354-373: not native, not abstract, not callee-save.\<close>

definition is_managed :: "'w::len Method \<Rightarrow> bool" where
  "is_managed method =
     (\<not> IsNative method \<and> \<not> IsAbstract method \<and> \<not> IsCalleeSaveMethod method)"

subsection \<open>The classifier as the specification words it\<close>

datatype category = CatClass | CatMethod | CatField | CatArray | CatString | CatObject

text \<open>
  The specification's decision table: the capability checks in order, the first match
  wins, and a plain object when none matches.
\<close>

definition spec_precedence :: "(('w::len Object \<Rightarrow> bool) \<times> category) list" where
  "spec_precedence =
     [(IsClass, CatClass), (IsMethod, CatMethod), (IsField, CatField),
      (IsArrayInstance, CatArray), (GetClass_IsStringClass, CatString)]"

definition spec_category :: "'w::len Object \<Rightarrow> category" where
  "spec_category obj =
     (case find (\<lambda>(check, c). check obj) spec_precedence of
        Some (check, c) \<Rightarrow> c
      | None \<Rightarrow> CatObject)"

text \<open>
  The category that an item of the summary announces: the literal \<^verbatim>\<open>"CLASS "\<close> of line 320
  and the format strings of lines 327-336. Streamed data is never a label.
\<close>

fun category_label :: "'a out \<Rightarrow> category option" where
  "category_label (Text s) = (if s = ''CLASS '' then Some CatClass else None)"
| "category_label (StringPrintf f args) =
     (if f = ''METHOD %s'' then Some CatMethod
      else if f = ''FIELD %s'' then Some CatField
      else if f = ''ARRAY %d'' then Some CatArray
      else if f = ''STRING %s'' then Some CatString
      else if f = ''OBJECT'' then Some CatObject
      else None)"
| "category_label (Val v) = None"
| "category_label Flush = None"

subsection \<open>The presence contract of a method's side tables\<close>

text \<open>The items of lines 379-390, which render the sizes of the two side tables.\<close>

fun renders_maps :: "'a out \<Rightarrow> bool" where
  "renders_maps (StringPrintf f args) =
     (f = ''GC=%zd '' \<or> f = ''Mapping=%zd '' \<or> f = TAB # ''SIZE Code=%zd GC=%zd Mapping=%zd'')"
| "renders_maps (Text s) = False"
| "renders_maps (Val v) = False"
| "renders_maps Flush = False"

text \<open>
  The contract as the specification states it: a managed method carries a register map,
  of a length above zero, and a mapping table; any other method carries neither.
\<close>

definition spec_presence_contract :: "'w::len Method \<Rightarrow> bool" where
  "spec_presence_contract method =
     (if is_managed method
      then GetGcMap method \<noteq> 0 \<and> GetMappingTable method \<noteq> 0 \<and> 0 < GetGcMapLength method
      else GetGcMap method = 0 \<and> GetGcMapLength method = 0 \<and> GetMappingTable method = 0)"

text \<open>What the debug checks of lines 360-375 test.\<close>

definition checked_presence_contract :: "'w::len Method \<Rightarrow> bool" where
  "checked_presence_contract method =
     (if is_managed method
      then GetGcMap method \<noteq> 0 \<and> GetGcMapLength method \<noteq> 0
      else GetGcMap method = 0 \<and> GetGcMapLength method = 0 \<and> GetMappingTable method = 0)"

subsection \<open>The totals of a managed method as the specification states them\<close>

text \<open>
  Each of the four totals grows by the method's contribution. \<open>code_bytes\<close> is the length
  of the method's compiled code: the file calls no accessor that gives it.
\<close>

definition spec_managed_totals ::
  "'w::len word \<Rightarrow> 'w Method \<Rightarrow> 'w Stats \<Rightarrow> 'w Stats \<Rightarrow> bool" where
  "spec_managed_totals code_bytes method stats stats' \<longleftrightarrow>
     (case GetCodeItem method of
        None \<Rightarrow> False
      | Some insns \<Rightarrow>
          dex_instruction_bytes stats' = dex_instruction_bytes stats + ucast (insns * 2)) \<and>
     register_map_bytes stats' = register_map_bytes stats + GetGcMapLength method \<and>
     pc_mapping_table_bytes stats' = pc_mapping_table_bytes stats + GetMappingTableLength method \<and>
     managed_code_bytes stats' = managed_code_bytes stats + code_bytes"

subsection \<open>The invariant of the two tables\<close>

definition lookup0 :: "'w::len Table \<Rightarrow> string \<Rightarrow> 'w word" where
  "lookup0 m k = (case map_of m k of None \<Rightarrow> 0 | Some v \<Rightarrow> v)"

text \<open>
  \<open>visit_count space objs d\<close>: how many of \<open>objs\<close> lie in the space and have a class with
  descriptor \<open>d\<close>. \<open>Stats_inv stats n\<close>: the tables are in key order with the same keys,
  \<^verbatim>\<open>object_bytes\<close> is the sum of the byte table, and the count table holds \<open>n d\<close>, as a
  machine word, for exactly the descriptors with \<open>n d\<close> above zero.
\<close>

definition visit_count :: "'w::len Space \<Rightarrow> 'w Object list \<Rightarrow> string \<Rightarrow> nat" where
  "visit_count space objs d =
     length (filter (\<lambda>obj. Contains space (address obj) \<and> GetClass_descriptor obj = d) objs)"

definition Stats_inv :: "'w::len Stats \<Rightarrow> (string \<Rightarrow> nat) \<Rightarrow> bool" where
  "Stats_inv stats n \<longleftrightarrow>
     sorted_wrt (<) (map fst (descriptor_to_bytes stats)) \<and>
     map fst (descriptor_to_bytes stats) = map fst (descriptor_to_count stats) \<and>
     object_bytes stats = sum_list (map snd (descriptor_to_bytes stats)) \<and>
     (\<forall>d. map_of (descriptor_to_count stats) d =
            (if n d = 0 then None else Some (of_nat (n d))))"

subsection \<open>The two accounting invariants\<close>

definition accounted :: "'w::len Stats \<Rightarrow> bool" where
  "accounted stats \<longleftrightarrow>
     file_bytes stats = header_bytes stats + object_bytes stats + alignment_bytes stats \<and>
     object_bytes stats = sum_list (map snd (descriptor_to_bytes stats))"

subsection \<open>A class's member data and the methods rendered from it\<close>

text \<open>
  The member data of a well-formed class: its static fields, its instance fields, its
  direct methods and its virtual methods, in this order, each by its member index.
\<close>

definition class_data_layout ::
  "32 word list \<Rightarrow> 32 word list \<Rightarrow> 32 word list \<Rightarrow> 32 word list \<Rightarrow> ClassDataItemIterator" where
  "class_data_layout static_fields instance_fields direct_methods virtual_methods =
     map (Pair StaticField) static_fields @ map (Pair InstanceField) instance_fields @
     map (Pair DirectMethod) direct_methods @ map (Pair VirtualMethod) virtual_methods"

text \<open>
  What \<^verbatim>\<open>DumpOatMethod\<close> writes for a sequence of methods whose ordinals start at
  \<open>method_index\<close> and go up by one.
\<close>

fun method_entries ::
  "'w::len OatFile \<Rightarrow> 'w OatClass \<Rightarrow> DexFile \<Rightarrow> 32 word \<Rightarrow> 32 word list \<Rightarrow> 'w word out list" where
  "method_entries oat_file oat_class dex_file method_index [] = []"
| "method_entries oat_file oat_class dex_file method_index (method_idx # rest) =
     DumpOatMethod [] method_index oat_file (GetOatMethod oat_class method_index) dex_file method_idx @
     method_entries oat_file oat_class dex_file (method_index + 1) rest"

text \<open>The ordinal in the first line of a rendered method (line 193).\<close>

fun method_ordinal :: "'a out \<Rightarrow> 32 word option" where
  "method_ordinal (StringPrintf f args) =
     (if f = TAB # ''%d: %s %s (method_idx=%d)\<newline>''
      then (case args of ArgU32 method_index # rest \<Rightarrow> Some method_index | _ \<Rightarrow> None)
      else None)"
| "method_ordinal (Text s) = None"
| "method_ordinal (Val v) = None"
| "method_ordinal Flush = None"

section \<open>Example inputs, on a 32-bit platform\<close>

definition ex_cfg :: "32 config" where
  "ex_cfg = \<lparr>kEnableDChecks = True, kObjectAlignment = 8,
             RoundUp = (\<lambda>x n. x + (n - x mod n) mod n),
             sizeof_ImageHeader = 60, kImageRootsMax = 11, kOatLocation = 8\<rparr>"

definition ex_space :: "32 Space" where
  "ex_space = \<lparr>Contains = (\<lambda>a. 0x1000 \<le> a \<and> a < 0x2000)\<rparr>"

definition ex_managed_method :: "32 Method" where
  "ex_managed_method =
     \<lparr>PrettyMethod = ''void Foo.bar()'', IsCalleeSaveMethod = False, GetCode = 0x5000,
      GetInvokeStub = 0x5100, IsNative = False, IsRegistered = False, GetNativeMethod = 0,
      IsAbstract = False, GetGcMap = 0x5200, GetGcMapLength = 4, GetMappingTable = 0x5300,
      GetMappingTableLength = 8, GetCodeItem = Some 3\<rparr>"

definition ex_native_method :: "32 Method" where
  "ex_native_method =
     ex_managed_method\<lparr>PrettyMethod := ''void Foo.baz()'', IsNative := True, GetGcMap := 0,
       GetGcMapLength := 0, GetMappingTable := 0, GetMappingTableLength := 0,
       GetCodeItem := None\<rparr>"

definition ex_object :: "32 Object" where
  "ex_object =
     \<lparr>address = 0x1000, SizeOf = 12, IsClass = False, klass_descriptor = [], klass_status = 0,
      IsMethod = False, AsMethod = ex_native_method, IsField = False, PrettyField = [],
      IsArrayInstance = False, Array_GetLength = 0, GetClass = 0x1800,
      GetClass_IsStringClass = False, GetClass_descriptor = ''Ljava/lang/Object;'',
      ToModifiedUtf8 = [], IsObjectArray = False, ObjectArray_elems = []\<rparr>"

definition ex_managed_object :: "32 Object" where
  "ex_managed_object =
     ex_object\<lparr>address := 0x1010, SizeOf := 48, IsMethod := True, AsMethod := ex_managed_method,
       GetClass_descriptor := ''Ljava/lang/reflect/Method;''\<rparr>"

definition ex_native_object :: "32 Object" where
  "ex_native_object =
     ex_object\<lparr>address := 0x1040, SizeOf := 48, IsMethod := True, AsMethod := ex_native_method,
       GetClass_descriptor := ''Ljava/lang/reflect/Method;''\<rparr>"

definition ex_outside_object :: "32 Object" where
  "ex_outside_object = ex_object\<lparr>address := 0x3000\<rparr>"

text \<open>A managed method with a register map and no mapping table.\<close>

definition ex_unmapped_object :: "32 Object" where
  "ex_unmapped_object =
     ex_managed_object\<lparr>AsMethod := ex_managed_method\<lparr>GetMappingTable := 0\<rparr>\<rparr>"

text \<open>A native method that carries a register map.\<close>

definition ex_native_with_map_object :: "32 Object" where
  "ex_native_with_map_object =
     ex_native_object\<lparr>AsMethod := ex_native_method\<lparr>GetGcMap := 0x5200\<rparr>\<rparr>"

text \<open>An object that passes two capability checks.\<close>

definition ex_class_array_object :: "32 Object" where
  "ex_class_array_object =
     ex_object\<lparr>IsClass := True, klass_descriptor := ''[Ljava/lang/Class;'',
       IsArrayInstance := True\<rparr>"

definition ex_state :: "32 ImageDump" where
  "ex_state = ImageDump_init ex_space []"

definition ex_objects :: "32 Object list" where
  "ex_objects = [ex_object, ex_managed_object, ex_outside_object, ex_native_object]"

text \<open>A heap snapshot whose companion artifact is not found.\<close>

definition ex_root_object :: "32 Object" where
  "ex_root_object = ex_object\<lparr>address := 0x1100\<rparr>"

definition ex_array_root_object :: "32 Object" where
  "ex_array_root_object =
     ex_object\<lparr>address := 0x1200, IsObjectArray := True, ObjectArray_elems := [0x1010, 0x1040]\<rparr>"

definition ex_oat_location_object :: "32 Object" where
  "ex_oat_location_object =
     ex_object\<lparr>address := 0x1300, GetClass_IsStringClass := True,
       ToModifiedUtf8 := ''/system/foo.art''\<rparr>"

definition ex_image_header :: "32 ImageHeader" where
  "ex_image_header =
     \<lparr>IsValid = True, ImageHeader_GetMagic = ''art'', GetImageBegin = 0x1000,
      GetOatChecksum = 0xCAFE, GetOatBegin = 0x4000, GetOatEnd = 0x6000,
      GetImageRoots = 0x1400,
      GetImageRoot = (\<lambda>i. if i = 8 then ex_oat_location_object
                          else if i = 9 then ex_array_root_object else ex_root_object)\<rparr>"

definition ex_image_space :: "32 ImageSpace" where
  "ex_image_space = \<lparr>as_Space = ex_space, GetImageHeader = ex_image_header\<rparr>"

definition ex_runtime :: "32 Runtime" where
  "ex_runtime =
     \<lparr>Heap_GetSpaces = [Some ex_image_space, None], Heap_GetLiveBits = Some ex_objects,
      FindOatFileFromOatLocation = (\<lambda>location. None)\<rparr>"

definition ex_sys :: "32 system" where
  "ex_sys =
     \<lparr>cfg_of = ex_cfg,
      OS_OpenFile_Length =
        (\<lambda>name. if name = ''/system/framework/boot.art'' then Some 176 else None),
      DexFile_Open = (\<lambda>location. None),
      OatFile_Open = (\<lambda>location. None),
      ofstream_good = (\<lambda>filename. True),
      Runtime_Create = (\<lambda>options. Some ex_runtime)\<rparr>"

definition ex_args :: "string list" where
  "ex_args = [''--image=/system/framework/boot.art'', ''--host-prefix=/root'']"

text \<open>A compiled-code artifact with one source unit of two classes.\<close>

definition ex_oat_method :: "32 OatMethod" where
  "ex_oat_method =
     \<lparr>OatMethod_GetCode = 0x5000, GetCodeOffset = 0x1000, GetFrameSizeInBytes = 32,
      GetCoreSpillMask = 0x4DE0, GetFpSpillMask = 0, OatMethod_GetMappingTable = 0x5300,
      GetMappingTableOffset = 0x1300, GetVmapTable = 0x5400, GetVmapTableOffset = 0x1400,
      OatMethod_GetGcMap = 0x5200, GetGcMapOffset = 0x1200, OatMethod_GetInvokeStub = 0x5100,
      GetInvokeStubOffset = 0x1100\<rparr>"

definition ex_oat_class :: "32 OatClass" where
  "ex_oat_class = \<lparr>OatClass_GetStatus = 7, GetOatMethod = (\<lambda>method_index. ex_oat_method)\<rparr>"

text \<open>One static field, one direct method, one virtual method.\<close>

definition ex_class_def :: ClassDef where
  "ex_class_def =
     \<lparr>class_idx = 5, GetClassDescriptor = ''LFoo;'',
      GetClassData = Some (class_data_layout [7] [] [21] [22])\<rparr>"

definition ex_marker_class_def :: ClassDef where
  "ex_marker_class_def =
     \<lparr>class_idx = 6, GetClassDescriptor = ''LMarker;'', GetClassData = None\<rparr>"

definition ex_dex_file :: DexFile where
  "ex_dex_file =
     \<lparr>class_defs = [ex_marker_class_def, ex_class_def],
      GetMethodName = (\<lambda>method_idx. if method_idx = 21 then ''<init>'' else ''bar''),
      GetMethodSignature = (\<lambda>method_idx. ''()V'')\<rparr>"

definition ex_oat_dex_file :: "32 OatDexFile" where
  "ex_oat_dex_file =
     \<lparr>GetDexFileLocation = ''/system/framework/core.jar'',
      GetDexFileLocationChecksum = 0x1234,
      GetOatClass = (\<lambda>class_def_index. Some ex_oat_class)\<rparr>"

definition ex_oat_file :: "32 OatFile" where
  "ex_oat_file =
     \<lparr>GetOatHeader = \<lparr>OatHeader_GetMagic = ''oat'', GetChecksum = 1, GetDexFileCount = 1,
                       GetExecutableOffset = 0x1000\<rparr>,
      Begin = 0x4000, End = 0x6000, GetOatDexFiles = [Some ex_oat_dex_file]\<rparr>"

text \<open>
  A runtime and a system that find the companion artifact and the source unit under the
  host prefix \<^verbatim>\<open>/root\<close> only, not at the stored locations.
\<close>

definition ex_prefixed_runtime :: "32 Runtime" where
  "ex_prefixed_runtime =
     ex_runtime\<lparr>FindOatFileFromOatLocation :=
       (\<lambda>location. if location = ''/root/system/foo.art'' then Some ex_oat_file else None)\<rparr>"

definition ex_prefixed_sys :: "32 system" where
  "ex_prefixed_sys =
     ex_sys\<lparr>DexFile_Open :=
       (\<lambda>location. if location = ''/root/system/framework/core.jar'' then Some ex_dex_file
                   else None)\<rparr>"

section \<open>Lemmas\<close>

subsection \<open>The tables\<close>

lemma Table_insert_keys: "fst ` set (Table_insert k v m) = insert k (fst ` set m)"
  by (induction k v m rule: Table_insert.induct) (auto simp: image_iff)

lemma map_of_Table_insert: "map_of (Table_insert k v m) = (map_of m)(k \<mapsto> v)"
  by (induction m) (auto simp: fun_eq_iff)

lemma Table_insert_sorted:
  "sorted_wrt (<) (map fst m) \<Longrightarrow> sorted_wrt (<) (map fst (Table_insert k v m))"
proof (induction k v m rule: Table_insert.induct)
  case (1 k v)
  then show ?case by simp
next
  case (2 k v k' v' m)
  have "fst ` set (Table_insert k v m) = insert k (fst ` set m)"
    by (rule Table_insert_keys)
  with 2 show ?case
    by (auto simp: image_iff not_less_iff_gr_or_eq)
qed

lemma sorted_keys_less_absent:
  "sorted_wrt (<) (map fst ((k', v') # m)) \<Longrightarrow> (k::string) \<le> k' \<Longrightarrow> map_of m k = None"
proof -
  assume s: "sorted_wrt (<) (map fst ((k', v') # m))" and le: "k \<le> k'"
  have "k \<notin> fst ` set m"
  proof
    assume "k \<in> fst ` set m"
    then obtain x where "x \<in> set m" "fst x = k" by auto
    with s have "k' < k" by auto
    with le show False by simp
  qed
  then show ?thesis by (simp add: map_of_eq_None_iff)
qed

lemma Table_insert_sum_new:
  "sorted_wrt (<) (map fst m) \<Longrightarrow> map_of m k = None \<Longrightarrow>
   sum_list (map snd (Table_insert k v m)) = sum_list (map snd m) + v"
  by (induction k v m rule: Table_insert.induct) (auto split: if_splits)

lemma Table_insert_sum_old:
  "sorted_wrt (<) (map fst m) \<Longrightarrow> map_of m k = Some u \<Longrightarrow>
   sum_list (map snd (Table_insert k v m)) + u = sum_list (map snd m) + v"
proof (induction k v m rule: Table_insert.induct)
  case (1 k v)
  then show ?case by simp
next
  case (2 k v k' v' m)
  show ?case
  proof (cases "k = k'")
    case True
    with 2 show ?thesis by simp
  next
    case False
    show ?thesis
    proof (cases "k < k'")
      case True
      with 2(2) have "map_of m k = None"
        by (intro sorted_keys_less_absent[of k' v' m k]) auto
      with 2(3) False show ?thesis by simp
    next
      case nl: False
      with 2 False show ?thesis by (simp add: add.assoc)
    qed
  qed
qed



lemma Table_insert_key_list:
  "map fst m1 = map fst m2 \<Longrightarrow>
   map fst (Table_insert k v1 m1) = map fst (Table_insert k v2 m2)"
proof (induction k v1 m1 arbitrary: m2 rule: Table_insert.induct)
  case (1 k v)
  then show ?case by simp
next
  case (2 k v k' v' m)
  then obtain p m2' where m2: "m2 = p # m2'" by (cases m2) auto
  with 2 show ?case by (cases p) auto
qed

lemma map_of_key_list:
  "map fst m1 = map fst m2 \<Longrightarrow> (map_of m1 k = None) = (map_of m2 k = None)"
  by (metis list.set_map map_of_eq_None_iff)

lemma Table_add_key_list:
  assumes "map fst m1 = map fst m2"
  shows "map fst (Table_add m1 k n1) = map fst (Table_add m2 k n2)"
proof (cases "map_of m1 k")
  case None
  with assms have "map_of m2 k = None" using map_of_key_list[of m1 m2 k] by simp
  with None assms show ?thesis
    by (simp add: Table_add_def Table_index_def Table_insert_key_list)
next
  case (Some v)
  with assms obtain v2 where "map_of m2 k = Some v2"
    using map_of_key_list[of m1 m2 k] by auto
  with Some assms show ?thesis
    by (simp add: Table_add_def Table_index_def Table_insert_key_list)
qed

lemma Table_add_sorted:
  "sorted_wrt (<) (map fst m) \<Longrightarrow> sorted_wrt (<) (map fst (Table_add m k n))"
  by (simp add: Table_add_def Table_index_def Table_insert_sorted split: option.splits)

lemma map_of_Table_add:
  "map_of (Table_add m k n) = (map_of m)(k \<mapsto> lookup0 m k + n)"
  by (auto simp: Table_add_def Table_index_def map_of_Table_insert lookup0_def split: option.splits)

lemma Table_add_sum:
  assumes "sorted_wrt (<) (map fst m)"
  shows "sum_list (map snd (Table_add m k n)) = sum_list (map snd m) + n"
proof (cases "map_of m k")
  case None
  have s: "sorted_wrt (<) (map fst (Table_insert k 0 m))"
    using assms by (rule Table_insert_sorted)
  have "sum_list (map snd (Table_insert k n (Table_insert k 0 m))) + 0 
          = sum_list (map snd (Table_insert k 0 m)) + n"
    by (rule Table_insert_sum_old[OF s]) (simp add: map_of_Table_insert)
  with None assms show ?thesis
    by (simp add: Table_add_def Table_index_def Table_insert_sum_new)
next
  case (Some v)
  with assms have "sum_list (map snd (Table_insert k (v + n) m)) + v = sum_list (map snd m) + (v + n)"
    by (intro Table_insert_sum_old)
  with Some show ?thesis
    by (simp add: Table_add_def Table_index_def)
qed

subsection \<open>One visit\<close>

lemma Callback_outside:
  "address obj \<noteq> 0 \<Longrightarrow> \<not> InDumpSpace state obj \<Longrightarrow> Callback cfg obj state = Inr state"
  by (simp add: Callback_def DCHECK_def)

lemma Callback_inside:
  assumes "InDumpSpace state obj" "Callback cfg obj state = Inr state'"
  obtains summary stats where
    "(if IsMethod obj then
        Callback_method cfg (AsMethod obj) (Callback_summary obj)
          (Callback_stats cfg obj (stats_of state))
      else Inr (Callback_summary obj, Callback_stats cfg obj (stats_of state)))
     = Inr (summary, stats)"
    "state' = state\<lparr>os_of := os_of state @ summary @ [Flush], stats_of := stats\<rparr>"
  using assms
  by (auto simp: Callback_def DCHECK_def split: if_splits sum.splits)

lemma Callback_method_labels:
  "Callback_method cfg m summary stats = Inr (summary', stats') \<Longrightarrow>
   List.map_filter category_label summary' = List.map_filter category_label summary"
  by (auto simp: Callback_method_def DCHECK_no_maps_def DCHECK_def Let_def List.map_filter_def
      split: if_splits option.splits)

lemma Callback_category_label:
  "List.map_filter category_label (Callback_category obj) = [spec_category obj]"
  by (simp add: Callback_category_def spec_category_def spec_precedence_def List.map_filter_def)

lemma Callback_summary_label:
  "List.map_filter category_label (Callback_summary obj) = [spec_category obj]"
  using Callback_category_label[of obj]
  by (simp add: Callback_summary_def List.map_filter_def)

lemma Callback_method_unmanaged:
  "\<not> is_managed m \<Longrightarrow> Callback_method cfg m summary stats = Inr (summary', stats') \<Longrightarrow>
   stats' = stats \<and> filter renders_maps summary' = filter renders_maps summary"
  by (auto simp: Callback_method_def DCHECK_no_maps_def DCHECK_def Let_def is_managed_def
      split: if_splits)

lemma Callback_method_unmanaged_checked:
  "kEnableDChecks cfg \<Longrightarrow> \<not> is_managed m \<Longrightarrow> 
   Callback_method cfg m summary stats = Inr (summary', stats') \<Longrightarrow>
   GetGcMap m = 0 \<and> GetGcMapLength m = 0 \<and> GetMappingTable m = 0"
  by (auto simp: Callback_method_def DCHECK_no_maps_def DCHECK_def Let_def is_managed_def
      split: if_splits)

lemma Callback_method_managed:
  "is_managed m \<Longrightarrow> Callback_method cfg m summary stats = Inr (summary', stats') \<Longrightarrow>
   \<exists>insns. GetCodeItem m = Some insns \<and>
     stats' = stats\<lparr>register_map_bytes := register_map_bytes stats + GetGcMapLength m,
                    pc_mapping_table_bytes := pc_mapping_table_bytes stats + GetMappingTableLength m,
                    dex_instruction_bytes := dex_instruction_bytes stats + ucast (insns * 2)\<rparr>"
  by (auto simp: Callback_method_def DCHECK_def Let_def is_managed_def
      split: if_splits option.splits)

lemma Callback_method_managed_checked:
  "kEnableDChecks cfg \<Longrightarrow> is_managed m \<Longrightarrow> 
   Callback_method cfg m summary stats = Inr (summary', stats') \<Longrightarrow>
   GetGcMap m \<noteq> 0 \<and> GetGcMapLength m \<noteq> 0"
  by (auto simp: Callback_method_def DCHECK_def Let_def is_managed_def
      split: if_splits option.splits)

lemma Callback_summary_no_maps: "filter renders_maps (Callback_summary obj) = []"
  by (simp add: Callback_summary_def Callback_category_def)



subsection \<open>The traversal keeps the invariant of the tables\<close>

lemma Stats_inv_init: "Stats_inv Stats_init (\<lambda>d. 0)"
  by (simp add: Stats_inv_def Stats_init_def)

lemma Stats_inv_Callback_stats:
  assumes "Stats_inv stats n"
  shows "Stats_inv (Callback_stats cfg obj stats) (n(GetClass_descriptor obj := Suc (n (GetClass_descriptor obj))))"
proof -
  let ?d = "GetClass_descriptor obj"
  from assms have l: "lookup0 (descriptor_to_count stats) ?d = of_nat (n ?d)"
    by (auto simp: Stats_inv_def lookup0_def)
  from assms show ?thesis
    unfolding Stats_inv_def Callback_stats_def Let_def
    by (auto simp: Table_add_sorted Table_add_sum map_of_Table_add l
        intro: Table_add_key_list)
qed

lemma Stats_inv_cong:
  "Stats_inv stats n \<Longrightarrow> descriptor_to_bytes stats' = descriptor_to_bytes stats \<Longrightarrow>
   descriptor_to_count stats' = descriptor_to_count stats \<Longrightarrow>
   object_bytes stats' = object_bytes stats \<Longrightarrow> Stats_inv stats' n"
  unfolding Stats_inv_def by metis

lemma Callback_method_tables:
  "Callback_method cfg m summary stats = Inr (summary', stats') \<Longrightarrow>
   descriptor_to_bytes stats' = descriptor_to_bytes stats \<and>
   descriptor_to_count stats' = descriptor_to_count stats \<and>
   object_bytes stats' = object_bytes stats"
  using Callback_method_managed[of m cfg summary stats summary' stats']
        Callback_method_unmanaged[of m cfg summary stats summary' stats']
  by (cases "is_managed m") auto

lemma Callback_space: "Callback cfg obj state = Inr state' \<Longrightarrow> dump_space_of state' = dump_space_of state"
  by (auto simp: Callback_def DCHECK_def split: if_splits sum.splits)

lemma Stats_inv_Callback:
  assumes "Stats_inv (stats_of state) n" "Callback cfg obj state = Inr state'"
  shows "Stats_inv (stats_of state') (\<lambda>d. n d + visit_count (dump_space_of state) [obj] d)"
proof (cases "InDumpSpace state obj")
  case False
  with assms(2) have "state' = state"
    by (auto simp: Callback_def DCHECK_def split: if_splits)
  moreover from False have "visit_count (dump_space_of state) [obj] = (\<lambda>d. 0)"
    by (auto simp: visit_count_def InDumpSpace_def)
  ultimately show ?thesis using assms(1) by simp
next
  case True
  from True assms(2) obtain summary stats where
    r: "(if IsMethod obj then
        Callback_method cfg (AsMethod obj) (Callback_summary obj)
          (Callback_stats cfg obj (stats_of state))
      else Inr (Callback_summary obj, Callback_stats cfg obj (stats_of state)))
     = Inr (summary, stats)"
    and s: "state' = state\<lparr>os_of := os_of state @ summary @ [Flush], stats_of := stats\<rparr>"
    by (rule Callback_inside)
  let ?n' = "n(GetClass_descriptor obj := Suc (n (GetClass_descriptor obj)))"
  have i: "Stats_inv (Callback_stats cfg obj (stats_of state)) ?n'"
    using assms(1) by (rule Stats_inv_Callback_stats)
  have "Stats_inv stats ?n'"
  proof (cases "IsMethod obj")
    case True
    with r have "Callback_method cfg (AsMethod obj) (Callback_summary obj)
          (Callback_stats cfg obj (stats_of state)) = Inr (summary, stats)" by simp
    from Callback_method_tables[OF this] i show ?thesis
      by (auto intro: Stats_inv_cong)
  next
    case False
    with r i show ?thesis by simp
  qed
  moreover from True have "?n' = (\<lambda>d. n d + visit_count (dump_space_of state) [obj] d)"
    by (auto simp: visit_count_def InDumpSpace_def fun_eq_iff)
  ultimately show ?thesis using s by simp
qed

lemma visit_count_Cons:
  "visit_count space (obj # objs) d = visit_count space [obj] d + visit_count space objs d"
  by (simp add: visit_count_def)

lemma Stats_inv_Walk:
  "Stats_inv (stats_of state) n \<Longrightarrow> Walk cfg objs state = Inr state' \<Longrightarrow>
   Stats_inv (stats_of state') (\<lambda>d. n d + visit_count (dump_space_of state) objs d)"
proof (induction objs arbitrary: state n)
  case Nil
  then show ?case by (simp add: visit_count_def)
next
  case (Cons obj objs)
  from Cons.prems(2) obtain state1 where
    c: "Callback cfg obj state = Inr state1" and w: "Walk cfg objs state1 = Inr state'"
    by (auto split: sum.splits)
  from Stats_inv_Callback[OF Cons.prems(1) c]
  have "Stats_inv (stats_of state1) (\<lambda>d. n d + visit_count (dump_space_of state) [obj] d)" .
  from Cons.IH[OF this w] Callback_space[OF c]
  show ?case
    by (simp add: visit_count_Cons[of _ obj objs] add.assoc)
qed

lemma distinct_nonnull_length:
  fixes xs :: "'w::len word list"
  assumes "distinct xs" "0 \<notin> set xs"
  shows "length xs < 2 ^ LENGTH('w)"
proof -
  have "set xs \<subseteq> UNIV - {0}" using assms(2) by auto
  then have "card (set xs) \<le> card (UNIV - {0 :: 'w word})"
    by (intro card_mono) auto
  also have "\<dots> = 2 ^ LENGTH('w) - 1"
    by (simp add: card_Diff_singleton card_word)
  finally have "length xs \<le> 2 ^ LENGTH('w) - 1"
    using assms(1) by (simp add: distinct_card)
  moreover have "0 < (2::nat) ^ LENGTH('w)" by simp
  ultimately show ?thesis by linarith
qed

lemma visit_count_le: "visit_count space objs d \<le> length objs"
  by (simp add: visit_count_def)

lemma of_nat_nonzero:
  "0 < n \<Longrightarrow> n < 2 ^ LENGTH('w) \<Longrightarrow> (of_nat n :: 'w::len word) \<noteq> 0"
  by (auto simp: word_of_nat_eq_0_iff dest!: dvd_imp_le)



lemma Callback_method_fault:
  "kEnableDChecks cfg \<Longrightarrow> \<not> checked_presence_contract m \<Longrightarrow>
   \<exists>what. Callback_method cfg m summary stats = Inl (DCHECK_failed what)"
  by (auto simp: Callback_method_def DCHECK_no_maps_def DCHECK_def Let_def is_managed_def
      checked_presence_contract_def split: if_splits)

lemma word_one_le_iff: "(1 \<le> (c :: 'w::len word)) = (c \<noteq> 0)"
proof -
  have "(1 \<le> c) = (1 \<le> unat c)" by (simp add: word_le_nat_alt)
  also have "\<dots> = (unat c \<noteq> 0)" by auto
  also have "\<dots> = (c \<noteq> 0)" by (simp add: unat_eq_0)
  finally show ?thesis .
qed

lemma sorted_keys_distinct:
  "sorted_wrt (<) (map fst (m :: 'w::len Table)) \<Longrightarrow> distinct (map fst m)"
  by (simp add: strict_sorted_iff)

lemma Stats_inv_after_Walk:
  assumes "Walk cfg objs (ImageDump_init space os) = Inr state"
  shows "Stats_inv (stats_of state) (visit_count space objs)"
proof -
  have "Stats_inv (stats_of (ImageDump_init space os)) (\<lambda>d. 0)"
    by (simp add: ImageDump_init_def Stats_inv_init)
  from Stats_inv_Walk[OF this assms] show ?thesis
    by (simp add: ImageDump_init_def)
qed

lemma Stats_inv_counts:
  fixes stats :: "'w::len Stats"
  assumes inv: "Stats_inv stats n" and bound: "\<And>d. n d < 2 ^ LENGTH('w)"
    and key: "d \<in> fst ` set (descriptor_to_count stats)"
  shows "\<exists>c. map_of (descriptor_to_count stats) d = Some c \<and> c \<noteq> 0"
proof -
  from key have "map_of (descriptor_to_count stats) d \<noteq> None"
    by (simp add: map_of_eq_None_iff)
  with inv have "n d \<noteq> 0" and "map_of (descriptor_to_count stats) d = Some (of_nat (n d))"
    by (auto simp: Stats_inv_def split: if_splits)
  moreover from \<open>n d \<noteq> 0\<close> bound[of d] have "(of_nat (n d) :: 'w word) \<noteq> 0"
    by (intro of_nat_nonzero) auto
  ultimately show ?thesis by simp
qed

subsection \<open>Stats::Dump\<close>

lemma Stats_Dump_loop_total:
  "\<exists>counts' os'. Stats_Dump_loop stats entries counts os tot =
      (counts', os', tot + sum_list (map snd entries))"
proof (induction entries arbitrary: counts os tot)
  case Nil
  then show ?case by simp
next
  case (Cons e entries)
  obtain descriptor bytes where e: "e = (descriptor, bytes)" by (cases e)
  obtain count counts1 where i: "Table_index counts descriptor = (count, counts1)"
    by (cases "Table_index counts descriptor")
  from Cons.IH[of counts1 _ "tot + bytes"] e i show ?case
    by (simp add: Let_def add.assoc)
qed

lemma Stats_Dump_cases:
  "(file_bytes stats \<noteq> header_bytes stats + object_bytes stats + alignment_bytes stats \<longrightarrow>
      Stats_Dump stats os =
        Inl (CHECK_failed ''file_bytes == header_bytes + object_bytes + alignment_bytes'')) \<and>
   (file_bytes stats = header_bytes stats + object_bytes stats + alignment_bytes stats \<and>
    object_bytes stats \<noteq> sum_list (map snd (descriptor_to_bytes stats)) \<longrightarrow>
      Stats_Dump stats os = Inl (CHECK_failed ''object_bytes == object_bytes_total'')) \<and>
   (accounted stats \<longrightarrow>
      (\<exists>counts' os'. Stats_Dump stats os = Inr (stats\<lparr>descriptor_to_count := counts'\<rparr>, os')))"
proof -
  obtain counts' os' where l:
    "Stats_Dump_loop stats (descriptor_to_bytes stats) (descriptor_to_count stats)
       (os @ Stats_Dump_file_bytes stats @
        [Text (TAB # ''object_bytes = sum of descriptor_to_bytes values below:\<newline>'')]) 0 =
     (counts', os', 0 + sum_list (map snd (descriptor_to_bytes stats)))"
    using Stats_Dump_loop_total by blast
  then show ?thesis
    by (auto simp: Stats_Dump_def CHECK_def accounted_def)
qed

lemma finalize_stats_inv:
  "Stats_inv stats n \<Longrightarrow> Stats_inv (finalize_stats cfg file_length stats) n"
  by (rule Stats_inv_cong) (simp_all add: finalize_stats_def Let_def)

subsection \<open>The stream of ImageDump::Dump\<close>

lemma Stats_Dump_loop_stream:
  "\<exists>lines. snd (Stats_Dump_loop stats entries counts os tot) =
      (os @ lines, tot + sum_list (map snd entries))"
proof (induction entries arbitrary: counts os tot)
  case Nil
  then show ?case by simp
next
  case (Cons e entries)
  obtain descriptor bytes where e: "e = (descriptor, bytes)" by (cases e)
  obtain count counts1 where i: "Table_index counts descriptor = (count, counts1)"
    by (cases "Table_index counts descriptor")
  let ?line = "Stats_Dump_line stats descriptor bytes count"
  from Cons.IH[of counts1 "os @ [?line]" "tot + bytes"] obtain lines where
    "snd (Stats_Dump_loop stats entries counts1 (os @ [?line]) (tot + bytes)) =
       ((os @ [?line]) @ lines, tot + bytes + sum_list (map snd entries))"
    by blast
  with e i have "snd (Stats_Dump_loop stats (e # entries) counts os tot) =
      (os @ (?line # lines), tot + sum_list (map snd (e # entries)))"
    by (simp add: add.assoc)
  then show ?case by blast
qed

lemma Stats_Dump_stream:
  assumes "Stats_Dump stats os = Inr (stats', os')"
  shows "\<exists>lines. os' = os @ lines @ Stats_Dump_code_bytes stats"
proof -
  let ?os1 = "os @ Stats_Dump_file_bytes stats @
        [Text (TAB # ''object_bytes = sum of descriptor_to_bytes values below:\<newline>'')]"
  obtain lines where l:
    "snd (Stats_Dump_loop stats (descriptor_to_bytes stats) (descriptor_to_count stats) ?os1 0) =
       (?os1 @ lines, 0 + sum_list (map snd (descriptor_to_bytes stats)))"
    using Stats_Dump_loop_stream by blast
  obtain counts' where
    "Stats_Dump_loop stats (descriptor_to_bytes stats) (descriptor_to_count stats) ?os1 0 =
       (counts', ?os1 @ lines, sum_list (map snd (descriptor_to_bytes stats)))"
    using l by (cases "Stats_Dump_loop stats (descriptor_to_bytes stats) (descriptor_to_count stats) ?os1 0") auto
  with assms have "os' = ?os1 @ lines @ [Text ''\<newline>'', Flush] @ Stats_Dump_code_bytes stats"
    by (auto simp: Stats_Dump_def CHECK_def split: if_splits)
  then show ?thesis by simp
qed

lemma ImageDump_Dump_stats_stream:
  assumes "ImageDump_Dump_stats sys image_filename state calls0 = Inr (stats, io1)"
  shows "\<exists>lines stats0. stream io1 =
           os_of state @ [Text ''STATS:\<newline>'', Flush] @ lines @
           Stats_Dump_code_bytes stats0 @ [Text ''\<newline>'', Flush]"
proof -
  from assms obtain file_length os' where
    d: "Stats_Dump (finalize_stats (cfg_of sys) file_length (stats_of state))
          (os_of state @ [Text ''STATS:\<newline>'', Flush]) = Inr (stats, os')"
    and s: "stream io1 = os' @ [Text ''\<newline>'', Flush]"
    by (auto simp: ImageDump_Dump_stats_def and_then_def split: option.splits sum.splits)
  from Stats_Dump_stream[OF d] s show ?thesis by auto
qed

lemma ImageDump_Dump_heap_stream:
  assumes "ImageDump_Dump_heap sys runtime image_filename io image_space image_header = Inr io1"
  shows "\<exists>before lines stats0. stream io1 =
           before @ [Text ''STATS:\<newline>'', Flush] @ lines @
           Stats_Dump_code_bytes stats0 @ [Text ''\<newline>'', Flush]"
proof -
  from assms obtain state stats where
    "ImageDump_Dump_stats sys image_filename state (calls io) = Inr (stats, io1)"
    by (auto simp: ImageDump_Dump_heap_def CHECK_def and_then_def split: if_splits sum.splits)
  from ImageDump_Dump_stats_stream[OF this] show ?thesis by blast
qed

lemma ImageDump_Dump_oat_location_not_found:
  assumes "address (GetImageRoot image_header (kOatLocation (cfg_of sys))) \<noteq> 0"
    and "FindOatFileFromOatLocation runtime
           (if host_prefix \<noteq> []
            then host_prefix @ ToModifiedUtf8 (GetImageRoot image_header (kOatLocation (cfg_of sys)))
            else ToModifiedUtf8 (GetImageRoot image_header (kOatLocation (cfg_of sys)))) = None"
  shows "\<exists>lines. ImageDump_Dump_oat_location sys runtime host_prefix image_header io =
           Inr \<lparr>stream = stream io @ [Text ''OAT LOCATION:\<newline>'', Flush] @ lines @
                          [Text ''NOT FOUND\<newline>'', Flush],
                calls = calls io @
                  [Call_FindOatFileFromOatLocation
                     (if host_prefix \<noteq> []
                      then host_prefix @ ToModifiedUtf8 (GetImageRoot image_header (kOatLocation (cfg_of sys)))
                      else ToModifiedUtf8 (GetImageRoot image_header (kOatLocation (cfg_of sys))))]\<rparr>"
  using assms
  by (cases "host_prefix = []") (simp_all add: ImageDump_Dump_oat_location_def Let_def)

lemma and_then_Inr: "\<not> isl r \<Longrightarrow> and_then r k = k (projr r)"
  by (cases r) (simp_all add: and_then_def)

subsection \<open>The class walker\<close>

declare skip_static_fields.simps [simp del]
declare skip_instance_fields.simps [simp del]
declare dump_direct_methods.simps [simp del]
declare dump_virtual_methods.simps [simp del]
declare DumpOatDexFile_classes.simps [simp del]

lemma HasNextKind_simps [simp]:
  "HasNextKind kind [] = False"
  "HasNextKind kind ((kind', member_idx) # it) = (kind' = kind)"
  by (simp_all add: HasNextKind_def)

lemma HasNextKind_map_Pair:
  "HasNextKind kind (map (Pair kind') xs @ it) = (if xs = [] then HasNextKind kind it else kind' = kind)"
  by (cases xs) simp_all

lemma HasNextKind_map_Pair_only:
  "HasNextKind kind (map (Pair kind') xs) = (xs \<noteq> [] \<and> kind' = kind)"
  by (cases xs) simp_all

lemma skip_static_fields_layout:
  "skip_static_fields (map (Pair StaticField) sf @ it) = skip_static_fields it"
proof (induction sf)
  case Nil
  then show ?case by simp
next
  case (Cons x sf)
  have "skip_static_fields ((StaticField, x) # map (Pair StaticField) sf @ it) =
        skip_static_fields (map (Pair StaticField) sf @ it)"
    by (subst skip_static_fields.simps) (simp add: HasNextStaticField_def Next_def)
  with Cons show ?case by simp
qed

lemma skip_static_fields_done:
  "\<not> HasNextKind StaticField it \<Longrightarrow> skip_static_fields it = it"
  by (subst skip_static_fields.simps) (simp add: HasNextStaticField_def)

lemma skip_instance_fields_layout:
  "skip_instance_fields (map (Pair InstanceField) ifs @ it) = skip_instance_fields it"
proof (induction ifs)
  case Nil
  then show ?case by simp
next
  case (Cons x ifs)
  have "skip_instance_fields ((InstanceField, x) # map (Pair InstanceField) ifs @ it) =
        skip_instance_fields (map (Pair InstanceField) ifs @ it)"
    by (subst skip_instance_fields.simps) (simp add: HasNextInstanceField_def Next_def)
  with Cons show ?case by simp
qed

lemma skip_instance_fields_done:
  "\<not> HasNextKind InstanceField it \<Longrightarrow> skip_instance_fields it = it"
  by (subst skip_instance_fields.simps) (simp add: HasNextInstanceField_def)

lemma DumpOatMethod_append:
  "DumpOatMethod os method_index oat_file oat_method dex_file method_idx =
     os @ DumpOatMethod [] method_index oat_file oat_method dex_file method_idx"
  by (simp add: DumpOatMethod_def)

lemma dump_direct_methods_layout:
  "dump_direct_methods oat_file oat_class dex_file (os, mi, map (Pair DirectMethod) dm @ it) =
   dump_direct_methods oat_file oat_class dex_file
     (os @ method_entries oat_file oat_class dex_file mi dm, mi + of_nat (length dm), it)"
proof (induction dm arbitrary: os mi)
  case Nil
  then show ?case by simp
next
  case (Cons x dm)
  have "dump_direct_methods oat_file oat_class dex_file
          (os, mi, (DirectMethod, x) # map (Pair DirectMethod) dm @ it) =
        dump_direct_methods oat_file oat_class dex_file
          (os @ DumpOatMethod [] mi oat_file (GetOatMethod oat_class mi) dex_file x, mi + 1,
           map (Pair DirectMethod) dm @ it)"
    by (subst dump_direct_methods.simps, subst DumpOatMethod_append)
       (simp add: HasNextDirectMethod_def Next_def GetMemberIndex_def)
  with Cons[of "os @ DumpOatMethod [] mi oat_file (GetOatMethod oat_class mi) dex_file x" "mi + 1"]
  show ?case by (simp add: ac_simps)
qed

lemma dump_direct_methods_done:
  "\<not> HasNextKind DirectMethod it \<Longrightarrow>
   dump_direct_methods oat_file oat_class dex_file (os, mi, it) = (os, mi, it)"
  by (subst dump_direct_methods.simps) (simp add: HasNextDirectMethod_def)

lemma dump_virtual_methods_layout:
  "dump_virtual_methods oat_file oat_class dex_file (os, mi, map (Pair VirtualMethod) vm @ it) =
   dump_virtual_methods oat_file oat_class dex_file
     (os @ method_entries oat_file oat_class dex_file mi vm, mi + of_nat (length vm), it)"
proof (induction vm arbitrary: os mi)
  case Nil
  then show ?case by simp
next
  case (Cons x vm)
  have "dump_virtual_methods oat_file oat_class dex_file
          (os, mi, (VirtualMethod, x) # map (Pair VirtualMethod) vm @ it) =
        dump_virtual_methods oat_file oat_class dex_file
          (os @ DumpOatMethod [] mi oat_file (GetOatMethod oat_class mi) dex_file x, mi + 1,
           map (Pair VirtualMethod) vm @ it)"
    by (subst dump_virtual_methods.simps, subst DumpOatMethod_append)
       (simp add: HasNextVirtualMethod_def Next_def GetMemberIndex_def)
  with Cons[of "os @ DumpOatMethod [] mi oat_file (GetOatMethod oat_class mi) dex_file x" "mi + 1"]
  show ?case by (simp add: ac_simps)
qed

lemma dump_virtual_methods_done:
  "\<not> HasNextKind VirtualMethod it \<Longrightarrow>
   dump_virtual_methods oat_file oat_class dex_file (os, mi, it) = (os, mi, it)"
  by (subst dump_virtual_methods.simps) (simp add: HasNextVirtualMethod_def)

lemma method_entries_append:
  "method_entries oat_file oat_class dex_file mi (xs @ ys) =
   method_entries oat_file oat_class dex_file mi xs @
   method_entries oat_file oat_class dex_file (mi + of_nat (length xs)) ys"
  by (induction xs arbitrary: mi) (simp_all add: ac_simps)

lemma method_ordinal_entries:
  "List.map_filter method_ordinal (method_entries oat_file oat_class dex_file mi idxs) =
   map (\<lambda>i. mi + of_nat i) [0..<length idxs]"
proof (induction idxs arbitrary: mi)
  case Nil
  then show ?case by (simp add: List.map_filter_def)
next
  case (Cons x idxs)
  have "[0..<length (x # idxs)] = 0 # map Suc [0..<length idxs]"
    by (simp add: upt_conv_Cons map_Suc_upt del: upt_Suc)
  moreover have "List.map_filter method_ordinal
      (method_entries oat_file oat_class dex_file mi (x # idxs)) =
      mi # List.map_filter method_ordinal (method_entries oat_file oat_class dex_file (mi + 1) idxs)"
    by (simp add: List.map_filter_def DumpOatMethod_def)
  ultimately show ?case using Cons[of "mi + 1"]
    by (simp add: o_def add.assoc)
qed

lemma DumpOatClass_walk_layout:
  "DumpOatClass_walk os oat_file oat_class dex_file (class_data_layout sf ifs dm vm) =
     (os @ method_entries oat_file oat_class dex_file 0 (dm @ vm),
      of_nat (length dm + length vm), [])"
proof -
  have 1: "skip_static_fields (class_data_layout sf ifs dm vm) =
      map (Pair InstanceField) ifs @ map (Pair DirectMethod) dm @ map (Pair VirtualMethod) vm"
    unfolding class_data_layout_def skip_static_fields_layout
    by (rule skip_static_fields_done) (simp add: HasNextKind_map_Pair HasNextKind_map_Pair_only)
  have 2: "skip_instance_fields
      (map (Pair InstanceField) ifs @ map (Pair DirectMethod) dm @ map (Pair VirtualMethod) vm) =
      map (Pair DirectMethod) dm @ map (Pair VirtualMethod) vm"
    unfolding skip_instance_fields_layout
    by (rule skip_instance_fields_done) (simp add: HasNextKind_map_Pair HasNextKind_map_Pair_only)
  have 3: "dump_direct_methods oat_file oat_class dex_file
      (os, 0, map (Pair DirectMethod) dm @ map (Pair VirtualMethod) vm) =
      (os @ method_entries oat_file oat_class dex_file 0 dm, of_nat (length dm),
       map (Pair VirtualMethod) vm)"
    unfolding dump_direct_methods_layout
    using dump_direct_methods_done[of "map (Pair VirtualMethod) vm @ []"]
    by (simp add: HasNextKind_map_Pair HasNextKind_map_Pair_only)
  have 4: "dump_virtual_methods oat_file oat_class dex_file
      (os @ method_entries oat_file oat_class dex_file 0 dm, of_nat (length dm),
       map (Pair VirtualMethod) vm @ []) =
      ((os @ method_entries oat_file oat_class dex_file 0 dm) @
         method_entries oat_file oat_class dex_file (of_nat (length dm)) vm,
       of_nat (length dm) + of_nat (length vm), [])"
    unfolding dump_virtual_methods_layout
    by (rule dump_virtual_methods_done) simp
  from 4 show ?thesis
    by (simp add: DumpOatClass_walk_def 1 2 3 method_entries_append)
qed

lemma DumpOatDexFile_classes_end:
  "\<not> class_def_index < NumClassDefs dex_file \<Longrightarrow>
   DumpOatDexFile_classes cfg oat_file oat_dex_file dex_file class_def_index os = Inr os"
  by (subst DumpOatDexFile_classes.simps) simp

subsection \<open>The lookups\<close>

lemma DumpOatDexFile_calls:
  assumes "DumpOatDexFile sys host_prefix io oat_file oat_dex_file = Inr io'"
  shows "calls io' = calls io @
           [Call_DexFile_Open
              (if host_prefix \<noteq> [] then host_prefix @ GetDexFileLocation oat_dex_file
               else GetDexFileLocation oat_dex_file)]"
  using assms
  by (cases "host_prefix = []")
     (auto simp: DumpOatDexFile_def Let_def and_then_def split: option.splits sum.splits)

lemma OatDump_Dump_files_calls:
  "OatDump_Dump_files sys host_prefix oat_file files io = Inr io' \<Longrightarrow>
   \<exists>rest. calls io' = calls io @ rest"
proof (induction files arbitrary: io)
  case Nil
  then show ?case by simp
next
  case (Cons f files)
  from Cons.prems obtain g io1 where
    f: "f = Some g" and
    d: "DumpOatDexFile sys host_prefix io oat_file g = Inr io1" and
    r: "OatDump_Dump_files sys host_prefix oat_file files io1 = Inr io'"
    by (auto simp: and_then_def split: option.splits sum.splits)
  from Cons.IH[OF r] obtain rest where "calls io' = calls io1 @ rest" by blast
  with DumpOatDexFile_calls[OF d] show ?case by simp
qed

lemma OatDump_Dump_calls:
  assumes "OatDump_Dump sys oat_filename host_prefix io oat_file = Inr io'"
  shows "\<exists>rest. calls io' = calls io @ rest"
  using OatDump_Dump_files_calls[OF assms[unfolded OatDump_Dump_def]] by simp

lemma ImageDump_Dump_oat_location_calls:
  assumes "ImageDump_Dump_oat_location sys runtime host_prefix image_header io = Inr io'"
  shows "\<exists>rest. calls io' = calls io @
           Call_FindOatFileFromOatLocation
              (if host_prefix \<noteq> []
               then host_prefix @ ToModifiedUtf8 (GetImageRoot image_header (kOatLocation (cfg_of sys)))
               else ToModifiedUtf8 (GetImageRoot image_header (kOatLocation (cfg_of sys)))) # rest"
proof -
  let ?location = "if host_prefix \<noteq> []
               then host_prefix @ ToModifiedUtf8 (GetImageRoot image_header (kOatLocation (cfg_of sys)))
               else ToModifiedUtf8 (GetImageRoot image_header (kOatLocation (cfg_of sys)))"
  show ?thesis
  proof (cases "FindOatFileFromOatLocation runtime ?location")
    case None
    with assms have "calls io' = calls io @ [Call_FindOatFileFromOatLocation ?location]"
      by (cases "host_prefix = []")
         (auto simp: ImageDump_Dump_oat_location_def Let_def split: if_splits)
    then show ?thesis by simp
  next
    case (Some oat_file)
    with assms obtain os where
      "OatDump_Dump sys ?location host_prefix
         \<lparr>stream = os, calls = calls io @ [Call_FindOatFileFromOatLocation ?location]\<rparr> oat_file
       = Inr io'"
      by (cases "host_prefix = []")
         (auto simp: ImageDump_Dump_oat_location_def Let_def split: if_splits)
    from OatDump_Dump_calls[OF this] show ?thesis by simp
  qed
qed

lemmas ex_defs =
  ex_cfg_def ex_space_def ex_managed_method_def ex_native_method_def ex_object_def
  ex_managed_object_def ex_native_object_def ex_outside_object_def ex_unmapped_object_def
  ex_class_array_object_def ex_native_with_map_object_def ex_state_def ex_objects_def ImageDump_init_def Stats_init_def

lemmas Callback_defs =
  Callback_def DCHECK_def InDumpSpace_def Callback_stats_def Callback_summary_def
  Callback_category_def Callback_method_def DCHECK_no_maps_def Table_add_def Table_index_def
  Let_def

subsection \<open>The example traversal\<close>

lemmas ex_sys_defs = ex_root_object_def ex_array_root_object_def ex_oat_location_object_def
  ex_image_header_def ex_image_space_def ex_runtime_def ex_sys_def ex_args_def

lemma ex_walk: "\<not> isl (Walk ex_cfg ex_objects (ImageDump_init ex_space os))"
  by (simp add: ex_defs Callback_defs)

lemma ex_walk_stats:
  "stats_of (projr (Walk ex_cfg ex_objects (ImageDump_init ex_space os))) =
     Stats_init\<lparr>object_bytes := 108, alignment_bytes := 4,
       register_map_bytes := 4, pc_mapping_table_bytes := 8, dex_instruction_bytes := 6,
       descriptor_to_bytes := [(''Ljava/lang/Object;'', 12), (''Ljava/lang/reflect/Method;'', 96)],
       descriptor_to_count := [(''Ljava/lang/Object;'', 1), (''Ljava/lang/reflect/Method;'', 2)]\<rparr>"
  by (simp add: ex_defs Callback_defs)

lemma ex_finalized_accounted:
  "accounted (finalize_stats ex_cfg 176
     (stats_of (projr (Walk ex_cfg ex_objects (ImageDump_init ex_space os)))))"
  by (simp add: ex_walk_stats) (simp add: accounted_def finalize_stats_def Stats_init_def ex_cfg_def Let_def)

lemma ex_roots: "\<not> isl (ImageDump_Dump_roots ex_image_header indices os)"
  by (induction indices arbitrary: os) (simp_all add: ex_sys_defs ex_defs Let_def)

lemma ex_objects_dumped:
  "ImageDump_Dump_objects ex_cfg ex_runtime ex_space os =
     Inr ((projr (Walk ex_cfg ex_objects
                    (ImageDump_init ex_space (os @ [Text ''OBJECTS:\<newline>'', Flush]))))
          \<lparr>os_of := os_of (projr (Walk ex_cfg ex_objects
                    (ImageDump_init ex_space (os @ [Text ''OBJECTS:\<newline>'', Flush])))) @
                    [Text ''\<newline>'']\<rparr>)"
  using ex_walk[of "os @ [Text ''OBJECTS:\<newline>'', Flush]"]
  by (simp add: ImageDump_Dump_objects_def DCHECK_def ex_runtime_def and_then_Inr Let_def)

lemma ex_stats_dumped:
  assumes "stats_of state = stats_of (projr (Walk ex_cfg ex_objects (ImageDump_init ex_space os)))"
  shows "\<not> isl (ImageDump_Dump_stats ex_sys ''/system/framework/boot.art'' state calls0)"
proof -
  have "accounted (finalize_stats ex_cfg 176 (stats_of state))"
    using ex_finalized_accounted[of os] assms by simp
  with Stats_Dump_cases[of "finalize_stats ex_cfg 176 (stats_of state)"
      "os_of state @ [Text ''STATS:\<newline>'', Flush]"]
  obtain counts' os' where
    "Stats_Dump (finalize_stats ex_cfg 176 (stats_of state))
       (os_of state @ [Text ''STATS:\<newline>'', Flush]) =
     Inr ((finalize_stats ex_cfg 176 (stats_of state))\<lparr>descriptor_to_count := counts'\<rparr>, os')"
    by blast
  then show ?thesis
    by (simp add: ImageDump_Dump_stats_def ex_sys_def and_then_def)
qed

lemma ex_heap_dumped:
  "\<not> isl (ImageDump_Dump_heap ex_sys ex_runtime ''/system/framework/boot.art''
            \<lparr>stream = [], calls = []\<rparr> ex_space ex_image_header)"
proof -
  have c: "cfg_of ex_sys = ex_cfg" by (simp add: ex_sys_def)
  have k: "kImageRootsMax ex_cfg = 11" by (simp add: ex_cfg_def)
  have s: "\<not> isl (ImageDump_Dump_stats ex_sys ''/system/framework/boot.art''
      (projr (ImageDump_Dump_objects ex_cfg ex_runtime ex_space os)) calls0)" for os calls0
    by (rule ex_stats_dumped[of _ "os @ [Text ''OBJECTS:\<newline>'', Flush]"])
       (simp add: ex_objects_dumped)
  have o: "\<not> isl (ImageDump_Dump_objects ex_cfg ex_runtime ex_space os)" for os
    by (simp add: ex_objects_dumped)
  show ?thesis
    unfolding ImageDump_Dump_heap_def c k
    by (simp add: CHECK_def image_roots_descriptions_def and_then_Inr ex_roots o s
        split: prod.splits)
qed

lemmas ex_oat_defs = ex_oat_method_def ex_oat_class_def ex_class_def_def ex_marker_class_def_def
  ex_dex_file_def ex_oat_dex_file_def ex_oat_file_def

lemma ex_class_array_visit:
  "Callback ex_cfg ex_class_array_object ex_state =
     Inr (ex_state
       \<lparr>os_of := Callback_summary ex_class_array_object @ [Flush],
        stats_of := Callback_stats ex_cfg ex_class_array_object Stats_init\<rparr>)"
  by (simp add: Callback_def DCHECK_def InDumpSpace_def ex_defs)

lemma ex_prefixed_dump:
  "\<not> isl (ImageDump_Dump_oat_location ex_prefixed_sys ex_prefixed_runtime ''/root''
            ex_image_header \<lparr>stream = [], calls = []\<rparr>)"
  "List.map_filter method_ordinal (stream (projr
     (ImageDump_Dump_oat_location ex_prefixed_sys ex_prefixed_runtime ''/root''
        ex_image_header \<lparr>stream = [], calls = []\<rparr>))) = [0, 1]"
  "calls (projr
     (ImageDump_Dump_oat_location ex_prefixed_sys ex_prefixed_runtime ''/root''
        ex_image_header \<lparr>stream = [], calls = []\<rparr>)) =
   [Call_FindOatFileFromOatLocation ''/root/system/foo.art'',
    Call_DexFile_Open ''/root/system/framework/core.jar'']"
  by code_simp+

section \<open>The claims\<close>

subsection \<open>C1\<close>

text \<open>
  C1: after a completed traversal the finalized statistics always have \<^verbatim>\<open>object_bytes\<close>
  equal to the sum of the values of \<^verbatim>\<open>descriptor_to_bytes\<close>. Lines 263-273 either render them,
  and then \<^verbatim>\<open>file_bytes\<close> (the length of the file) equals
  \<^verbatim>\<open>header_bytes + object_bytes + alignment_bytes\<close> as well, or abort on the first
  \<^verbatim>\<open>CHECK_EQ\<close> because that equation is false. On any statistics at all, \<^verbatim>\<open>Stats::Dump\<close>
  aborts on a \<^verbatim>\<open>CHECK_EQ\<close> when one of the two equations is false.
\<close>

theorem accounting_invariants_checked:
  assumes "Walk (cfg_of sys) objs (ImageDump_init space os0) = Inr state"
    and "OS_OpenFile_Length sys image_filename = Some file_length"
  shows "object_bytes (finalize_stats (cfg_of sys) file_length (stats_of state)) =
           sum_list (map snd (descriptor_to_bytes
             (finalize_stats (cfg_of sys) file_length (stats_of state)))) \<and>
         (case ImageDump_Dump_stats sys image_filename state calls0 of
            Inr (stats, io) \<Rightarrow>
              file_bytes stats = header_bytes stats + object_bytes stats + alignment_bytes stats \<and>
              object_bytes stats = sum_list (map snd (descriptor_to_bytes stats)) \<and>
              file_bytes stats = file_length \<and> header_bytes stats = sizeof_ImageHeader (cfg_of sys)
          | Inl f \<Rightarrow>
              f = CHECK_failed ''file_bytes == header_bytes + object_bytes + alignment_bytes'' \<and>
              file_bytes (finalize_stats (cfg_of sys) file_length (stats_of state)) \<noteq>
                header_bytes (finalize_stats (cfg_of sys) file_length (stats_of state)) +
                object_bytes (finalize_stats (cfg_of sys) file_length (stats_of state)) +
                alignment_bytes (finalize_stats (cfg_of sys) file_length (stats_of state))) \<and>
         (\<forall>stats os. \<not> accounted stats \<longrightarrow> (\<exists>what. Stats_Dump stats os = Inl (CHECK_failed what)))"
proof -
  let ?fin = "finalize_stats (cfg_of sys) file_length (stats_of state)"
  let ?os = "os_of state @ [Text ''STATS:\<newline>'', Flush]"
  have "Stats_inv (stats_of state) (visit_count space objs)"
    using assms(1) by (rule Stats_inv_after_Walk)
  then have "Stats_inv ?fin (visit_count space objs)"
    by (rule finalize_stats_inv)
  then have sum: "object_bytes ?fin = sum_list (map snd (descriptor_to_bytes ?fin))"
    unfolding Stats_inv_def by blast
  note d = Stats_Dump_cases[of ?fin ?os]
  have fields: "file_bytes ?fin = file_length" "header_bytes ?fin = sizeof_ImageHeader (cfg_of sys)"
    by (simp_all add: finalize_stats_def Let_def)
  have pipeline: "case ImageDump_Dump_stats sys image_filename state calls0 of
            Inr (stats, io) \<Rightarrow>
              file_bytes stats = header_bytes stats + object_bytes stats + alignment_bytes stats \<and>
              object_bytes stats = sum_list (map snd (descriptor_to_bytes stats)) \<and>
              file_bytes stats = file_length \<and> header_bytes stats = sizeof_ImageHeader (cfg_of sys)
          | Inl f \<Rightarrow>
              f = CHECK_failed ''file_bytes == header_bytes + object_bytes + alignment_bytes'' \<and>
              file_bytes ?fin \<noteq> header_bytes ?fin + object_bytes ?fin + alignment_bytes ?fin"
  proof (cases "file_bytes ?fin = header_bytes ?fin + object_bytes ?fin + alignment_bytes ?fin")
    case True
    with sum have "accounted ?fin" by (simp add: accounted_def)
    with d obtain counts' os' where
      "Stats_Dump ?fin ?os = Inr (?fin\<lparr>descriptor_to_count := counts'\<rparr>, os')" by blast
    with True sum fields assms(2) show ?thesis
      by (simp add: ImageDump_Dump_stats_def and_then_def)
  next
    case False
    with d have "Stats_Dump ?fin ?os =
        Inl (CHECK_failed ''file_bytes == header_bytes + object_bytes + alignment_bytes'')"
      by blast
    with False assms(2) show ?thesis
      by (simp add: ImageDump_Dump_stats_def and_then_def)
  qed
  have general: "\<forall>stats os. \<not> accounted stats \<longrightarrow>
      (\<exists>what. Stats_Dump stats os = Inl (CHECK_failed what))"
    using Stats_Dump_cases unfolding accounted_def by blast
  show ?thesis
    by (intro conjI) (rule sum, rule pipeline, rule general)
qed

text \<open>An instance: the example traversal, a file of 176 bytes, and statistics whose file size is wrong.\<close>

theorem accounting_invariants_checked_witness:
  "\<not> isl (Walk (cfg_of ex_sys) ex_objects (ImageDump_init ex_space [])) \<and>
   OS_OpenFile_Length ex_sys ''/system/framework/boot.art'' = Some 176 \<and>
   \<not> isl (ImageDump_Dump_stats ex_sys ''/system/framework/boot.art''
            (projr (Walk (cfg_of ex_sys) ex_objects (ImageDump_init ex_space []))) []) \<and>
   accounted (fst (projr (ImageDump_Dump_stats ex_sys ''/system/framework/boot.art''
            (projr (Walk (cfg_of ex_sys) ex_objects (ImageDump_init ex_space []))) []))) \<and>
   file_bytes (fst (projr (ImageDump_Dump_stats ex_sys ''/system/framework/boot.art''
            (projr (Walk (cfg_of ex_sys) ex_objects (ImageDump_init ex_space []))) []))) = 176 \<and>
   isl (Stats_Dump (Stats_init\<lparr>file_bytes := 1\<rparr> :: 32 Stats) ([] :: 32 word out list))"
proof -
  have c: "cfg_of ex_sys = ex_cfg" by (simp add: ex_sys_def)
  have w: "Walk (cfg_of ex_sys) ex_objects (ImageDump_init ex_space []) =
      Inr (projr (Walk (cfg_of ex_sys) ex_objects (ImageDump_init ex_space [])))"
    using ex_walk[of "[]"] by (simp add: c)
  have f: "OS_OpenFile_Length ex_sys ''/system/framework/boot.art'' = Some 176"
    by (simp add: ex_sys_def)
  have n: "\<not> accounted (Stats_init\<lparr>file_bytes := 1\<rparr> :: 32 Stats)"
    by (simp add: accounted_def Stats_init_def)
  have a: "accounted (finalize_stats (cfg_of ex_sys) 176
     (stats_of (projr (Walk (cfg_of ex_sys) ex_objects (ImageDump_init ex_space [])))))"
    using ex_finalized_accounted[of "[]"] by (simp add: c)
  note t = accounting_invariants_checked[OF w f, of "[]"]
  from t a have r: "\<not> isl (ImageDump_Dump_stats ex_sys ''/system/framework/boot.art''
            (projr (Walk (cfg_of ex_sys) ex_objects (ImageDump_init ex_space []))) [])"
    by (auto simp: accounted_def split: sum.splits)
  from t r have "accounted (fst (projr (ImageDump_Dump_stats ex_sys ''/system/framework/boot.art''
            (projr (Walk (cfg_of ex_sys) ex_objects (ImageDump_init ex_space []))) []))) \<and>
   file_bytes (fst (projr (ImageDump_Dump_stats ex_sys ''/system/framework/boot.art''
            (projr (Walk (cfg_of ex_sys) ex_objects (ImageDump_init ex_space []))) []))) = 176"
    by (auto simp: accounted_def split: sum.splits)
  moreover from t n have "isl (Stats_Dump (Stats_init\<lparr>file_bytes := 1\<rparr> :: 32 Stats) ([] :: 32 word out list))"
    by (metis sum.disc(1))
  ultimately show ?thesis using w f r ex_walk[of "[]"] c by simp
qed

subsection \<open>C2\<close>

text \<open>
  C2 as stated fails: with the debug checks compiled in, the visit of a managed method
  that has a register map and a null mapping table returns without a fault.
\<close>

theorem managed_without_mapping_table_counterexample:
  "kEnableDChecks ex_cfg \<and> InDumpSpace ex_state ex_unmapped_object \<and>
   IsMethod ex_unmapped_object \<and> is_managed (AsMethod ex_unmapped_object) \<and>
   GetMappingTable (AsMethod ex_unmapped_object) = 0 \<and>
   \<not> isl (Callback ex_cfg ex_unmapped_object ex_state) \<and>
   \<not> spec_presence_contract (AsMethod ex_unmapped_object)"
  by (simp add: ex_defs Callback_defs is_managed_def spec_presence_contract_def)

text \<open>
  C2, amended: for every in-region method object, where the debug checks are compiled in
  a visit that returns has found a native, abstract or callee-save method with a null
  register map of length 0 and a null mapping table, and a managed method with a
  non-null register map of a length other than 0; a method that breaks this aborts the
  visit with the failed check. For a native, abstract or callee-save method the visit
  adds nothing to \<^verbatim>\<open>register_map_bytes\<close> and \<^verbatim>\<open>pc_mapping_table_bytes\<close> and renders no size of
  a side table. Whether a managed method has a mapping table is not checked.
\<close>

theorem method_presence_contract_checked:
  assumes "InDumpSpace state obj" and "IsMethod obj" and "address obj \<noteq> 0"
  shows "(\<forall>state'. Callback cfg obj state = Inr state' \<longrightarrow>
            (kEnableDChecks cfg \<longrightarrow> checked_presence_contract (AsMethod obj)) \<and>
            (\<not> is_managed (AsMethod obj) \<longrightarrow>
               register_map_bytes (stats_of state') = register_map_bytes (stats_of state) \<and>
               pc_mapping_table_bytes (stats_of state') = pc_mapping_table_bytes (stats_of state) \<and>
               filter renders_maps (written state state') = [])) \<and>
         (kEnableDChecks cfg \<and> \<not> checked_presence_contract (AsMethod obj) \<longrightarrow>
            (\<exists>what. Callback cfg obj state = Inl (DCHECK_failed what)))"
proof (intro conjI allI impI)
  fix state'
  assume c: "Callback cfg obj state = Inr state'"
  from assms(1) c obtain summary stats where
    r: "(if IsMethod obj then
        Callback_method cfg (AsMethod obj) (Callback_summary obj)
          (Callback_stats cfg obj (stats_of state))
      else Inr (Callback_summary obj, Callback_stats cfg obj (stats_of state)))
     = Inr (summary, stats)"
    and s: "state' = state\<lparr>os_of := os_of state @ summary @ [Flush], stats_of := stats\<rparr>"
    by (rule Callback_inside)
  from r assms(2) have m: "Callback_method cfg (AsMethod obj) (Callback_summary obj)
          (Callback_stats cfg obj (stats_of state)) = Inr (summary, stats)" by simp
  {
    assume d: "kEnableDChecks cfg"
    show "checked_presence_contract (AsMethod obj)"
      using Callback_method_unmanaged_checked[OF d _ m] Callback_method_managed_checked[OF d _ m]
      by (auto simp: checked_presence_contract_def)
  }
  {
    assume u: "\<not> is_managed (AsMethod obj)"
    from Callback_method_unmanaged[OF u m]
    have e: "stats = Callback_stats cfg obj (stats_of state)"
      and f: "filter renders_maps summary = filter renders_maps (Callback_summary obj)"
      by simp_all
    show "register_map_bytes (stats_of state') = register_map_bytes (stats_of state)"
      using s e by (simp add: Callback_stats_def Let_def)
    show "pc_mapping_table_bytes (stats_of state') = pc_mapping_table_bytes (stats_of state)"
      using s e by (simp add: Callback_stats_def Let_def)
    show "filter renders_maps (written state state') = []"
      using s f by (simp add: written_def Callback_summary_no_maps)
  }
next
  assume "kEnableDChecks cfg \<and> \<not> checked_presence_contract (AsMethod obj)"
  then obtain what where
    "Callback_method cfg (AsMethod obj) (Callback_summary obj)
          (Callback_stats cfg obj (stats_of state)) = Inl (DCHECK_failed what)"
    using Callback_method_fault by blast
  with assms show "\<exists>what. Callback cfg obj state = Inl (DCHECK_failed what)"
    by (simp add: Callback_def DCHECK_def)
qed

text \<open>An instance: a native method without side tables, and a native method with a register map.\<close>

theorem method_presence_contract_checked_witness:
  "InDumpSpace ex_state ex_native_object \<and> IsMethod ex_native_object \<and>
   address ex_native_object \<noteq> 0 \<and> kEnableDChecks ex_cfg \<and>
   \<not> is_managed (AsMethod ex_native_object) \<and>
   \<not> isl (Callback ex_cfg ex_native_object ex_state) \<and>
   checked_presence_contract (AsMethod ex_native_object) \<and>
   register_map_bytes (stats_of (projr (Callback ex_cfg ex_native_object ex_state))) =
     register_map_bytes (stats_of ex_state) \<and>
   pc_mapping_table_bytes (stats_of (projr (Callback ex_cfg ex_native_object ex_state))) =
     pc_mapping_table_bytes (stats_of ex_state) \<and>
   filter renders_maps (written ex_state (projr (Callback ex_cfg ex_native_object ex_state))) = [] \<and>
   InDumpSpace ex_state ex_native_with_map_object \<and> IsMethod ex_native_with_map_object \<and>
   address ex_native_with_map_object \<noteq> 0 \<and>
   \<not> checked_presence_contract (AsMethod ex_native_with_map_object) \<and>
   (\<exists>what. Callback ex_cfg ex_native_with_map_object ex_state = Inl (DCHECK_failed what))"
proof -
  have a: "InDumpSpace ex_state ex_native_object" "IsMethod ex_native_object"
    "address ex_native_object \<noteq> 0"
    by (simp_all add: ex_defs InDumpSpace_def)
  have b: "InDumpSpace ex_state ex_native_with_map_object" "IsMethod ex_native_with_map_object"
    "address ex_native_with_map_object \<noteq> 0"
    by (simp_all add: ex_defs InDumpSpace_def)
  have d: "kEnableDChecks ex_cfg" by (simp add: ex_defs)
  have u: "\<not> is_managed (AsMethod ex_native_object)"
    by (simp add: ex_defs is_managed_def)
  have v: "\<not> checked_presence_contract (AsMethod ex_native_with_map_object)"
    by (simp add: ex_defs checked_presence_contract_def is_managed_def)
  have r: "\<not> isl (Callback ex_cfg ex_native_object ex_state)"
    by (simp add: ex_defs Callback_defs)
  then have e: "Callback ex_cfg ex_native_object ex_state =
      Inr (projr (Callback ex_cfg ex_native_object ex_state))"
    by simp
  note t1 = method_presence_contract_checked[OF a, of ex_cfg]
  note t2 = method_presence_contract_checked[OF b, of ex_cfg]
  from t1 e d u have
    "checked_presence_contract (AsMethod ex_native_object) \<and>
     register_map_bytes (stats_of (projr (Callback ex_cfg ex_native_object ex_state))) =
       register_map_bytes (stats_of ex_state) \<and>
     pc_mapping_table_bytes (stats_of (projr (Callback ex_cfg ex_native_object ex_state))) =
       pc_mapping_table_bytes (stats_of ex_state) \<and>
     filter renders_maps (written ex_state (projr (Callback ex_cfg ex_native_object ex_state))) = []"
    by blast
  moreover from t2 d v have
    "\<exists>what. Callback ex_cfg ex_native_with_map_object ex_state = Inl (DCHECK_failed what)"
    by blast
  ultimately show ?thesis using a b d u v r by blast
qed

subsection \<open>C3\<close>

text \<open>
  C3 as stated fails: the visit of a managed method with 16 bytes of compiled code leaves
  \<^verbatim>\<open>managed_code_bytes\<close> at 0.
\<close>

theorem managed_method_no_code_total_counterexample:
  "InDumpSpace ex_state ex_managed_object \<and> IsMethod ex_managed_object \<and>
   is_managed (AsMethod ex_managed_object) \<and>
   \<not> isl (Callback ex_cfg ex_managed_object ex_state) \<and>
   \<not> spec_managed_totals 16 (AsMethod ex_managed_object) (stats_of ex_state)
       (stats_of (projr (Callback ex_cfg ex_managed_object ex_state)))"
  by (simp add: ex_defs Callback_defs is_managed_def spec_managed_totals_def)

text \<open>
  C3, amended: the visit of a managed method adds twice the instruction-unit count of
  its code item (a 32-bit product) to \<^verbatim>\<open>dex_instruction_bytes\<close>, the length of its register map
  to \<^verbatim>\<open>register_map_bytes\<close> and the length of its mapping table to
  \<^verbatim>\<open>pc_mapping_table_bytes\<close>; the three totals of code bytes stay as they were.
\<close>

theorem managed_method_totals:
  assumes "InDumpSpace state obj" and "IsMethod obj" and "is_managed (AsMethod obj)"
    and "Callback cfg obj state = Inr state'"
  shows "(\<exists>insns. GetCodeItem (AsMethod obj) = Some insns \<and>
            dex_instruction_bytes (stats_of state') =
              dex_instruction_bytes (stats_of state) + ucast (insns * 2)) \<and>
         register_map_bytes (stats_of state') =
           register_map_bytes (stats_of state) + GetGcMapLength (AsMethod obj) \<and>
         pc_mapping_table_bytes (stats_of state') =
           pc_mapping_table_bytes (stats_of state) + GetMappingTableLength (AsMethod obj) \<and>
         managed_code_bytes (stats_of state') = managed_code_bytes (stats_of state) \<and>
         managed_to_native_code_bytes (stats_of state') =
           managed_to_native_code_bytes (stats_of state) \<and>
         native_to_managed_code_bytes (stats_of state') =
           native_to_managed_code_bytes (stats_of state)"
proof -
  from assms(1,4) obtain summary stats where
    r: "(if IsMethod obj then
        Callback_method cfg (AsMethod obj) (Callback_summary obj)
          (Callback_stats cfg obj (stats_of state))
      else Inr (Callback_summary obj, Callback_stats cfg obj (stats_of state)))
     = Inr (summary, stats)"
    and s: "state' = state\<lparr>os_of := os_of state @ summary @ [Flush], stats_of := stats\<rparr>"
    by (rule Callback_inside)
  from r assms(2) have "Callback_method cfg (AsMethod obj) (Callback_summary obj)
          (Callback_stats cfg obj (stats_of state)) = Inr (summary, stats)" by simp
  from Callback_method_managed[OF assms(3) this] s show ?thesis
    by (auto simp: Callback_stats_def Let_def)
qed

text \<open>An instance: the managed method of the examples, visited from fresh statistics.\<close>

theorem managed_method_totals_witness:
  "InDumpSpace ex_state ex_managed_object \<and> IsMethod ex_managed_object \<and>
   is_managed (AsMethod ex_managed_object) \<and>
   \<not> isl (Callback ex_cfg ex_managed_object ex_state) \<and>
   dex_instruction_bytes (stats_of (projr (Callback ex_cfg ex_managed_object ex_state))) = 6 \<and>
   register_map_bytes (stats_of (projr (Callback ex_cfg ex_managed_object ex_state))) = 4 \<and>
   pc_mapping_table_bytes (stats_of (projr (Callback ex_cfg ex_managed_object ex_state))) = 8 \<and>
   managed_code_bytes (stats_of (projr (Callback ex_cfg ex_managed_object ex_state))) = 0"
proof -
  have a: "InDumpSpace ex_state ex_managed_object"
    by (simp add: ex_defs InDumpSpace_def)
  have b: "IsMethod ex_managed_object"
    by (simp add: ex_defs)
  have c: "is_managed (AsMethod ex_managed_object)"
    by (simp add: ex_defs is_managed_def)
  have d: "\<not> isl (Callback ex_cfg ex_managed_object ex_state)"
    by (simp add: ex_defs Callback_defs)
  then have e: "Callback ex_cfg ex_managed_object ex_state =
      Inr (projr (Callback ex_cfg ex_managed_object ex_state))"
    by simp
  have f: "GetCodeItem (AsMethod ex_managed_object) = Some 3" 
    "GetGcMapLength (AsMethod ex_managed_object) = 4"
    "GetMappingTableLength (AsMethod ex_managed_object) = 8"
    "stats_of ex_state = Stats_init"
    by (simp_all add: ex_defs)
  from managed_method_totals[OF a b c e] a b c d show ?thesis
    by (simp add: f Stats_init_def)
qed

subsection \<open>C4\<close>

text \<open>
  C4: for a class whose member data are its static fields, instance fields, direct
  methods and virtual methods in this order, the walker passes all fields without
  output, then renders the direct methods followed by the virtual methods with the
  ordinals 0, 1, 2, ... (a 32-bit counter that starts at 0 for every class), one entry
  per method, and the iterator is left with no entry; the debug check of line 181 holds.
\<close>

theorem class_walk_direct_then_virtual:
  assumes "GetClassData class_def = Some (class_data_layout sf ifs dm vm)"
  shows "DumpOatClass_walk os oat_file oat_class dex_file (class_data_layout sf ifs dm vm) =
           (os @ method_entries oat_file oat_class dex_file 0 (dm @ vm),
            of_nat (length dm + length vm), []) \<and>
         DumpOatClass cfg os oat_file oat_class dex_file class_def =
           Inr (os @ method_entries oat_file oat_class dex_file 0 (dm @ vm) @ [Flush]) \<and>
         List.map_filter method_ordinal (method_entries oat_file oat_class dex_file 0 (dm @ vm)) =
           map of_nat [0..<length dm + length vm]"
  using assms method_ordinal_entries[of oat_file oat_class dex_file 0 "dm @ vm"]
  by (simp add: DumpOatClass_def DumpOatClass_walk_layout DCHECK_def HasNext_def)

text \<open>An instance: a class with one static field, one direct and one virtual method.\<close>

theorem class_walk_direct_then_virtual_witness:
  "GetClassData ex_class_def = Some (class_data_layout [7] [] [21] [22]) \<and>
   DumpOatClass ex_cfg [] ex_oat_file ex_oat_class ex_dex_file ex_class_def =
     Inr (DumpOatMethod [] 0 ex_oat_file ex_oat_method ex_dex_file 21 @
          DumpOatMethod [] 1 ex_oat_file ex_oat_method ex_dex_file 22 @ [Flush]) \<and>
   List.map_filter method_ordinal
     (projr (DumpOatClass ex_cfg [] ex_oat_file ex_oat_class ex_dex_file ex_class_def)) = [0, 1]"
proof -
  have a: "GetClassData ex_class_def = Some (class_data_layout [7] [] [21] [22])"
    by (simp add: ex_class_def_def)
  from class_walk_direct_then_virtual[OF a, of "[]" ex_oat_file ex_oat_class ex_dex_file ex_cfg]
  have "DumpOatClass ex_cfg [] ex_oat_file ex_oat_class ex_dex_file ex_class_def =
     Inr (DumpOatMethod [] 0 ex_oat_file ex_oat_method ex_dex_file 21 @
          DumpOatMethod [] 1 ex_oat_file ex_oat_method ex_dex_file 22 @ [Flush])"
    by (simp add: ex_oat_class_def)
  with a show ?thesis
    by (simp add: List.map_filter_def DumpOatMethod_def)
qed

subsection \<open>C5\<close>

text \<open>
  C5: the summary that a visit writes announces exactly one category, and it is the
  first of class, method, field, array, string whose check the object passes, or plain
  object when it passes none.
\<close>

theorem category_first_match:
  assumes "InDumpSpace state obj" and "Callback cfg obj state = Inr state'"
  shows "List.map_filter category_label (written state state') = [spec_category obj]"
proof -
  from assms obtain summary stats where
    r: "(if IsMethod obj then
        Callback_method cfg (AsMethod obj) (Callback_summary obj)
          (Callback_stats cfg obj (stats_of state))
      else Inr (Callback_summary obj, Callback_stats cfg obj (stats_of state)))
     = Inr (summary, stats)"
    and s: "state' = state\<lparr>os_of := os_of state @ summary @ [Flush], stats_of := stats\<rparr>"
    by (rule Callback_inside)
  from r have "List.map_filter category_label summary = [spec_category obj]"
    using Callback_method_labels[of cfg "AsMethod obj" "Callback_summary obj" _ summary stats]
      Callback_summary_label[of obj]
    by (auto split: if_splits)
  with s show ?thesis
    by (simp add: written_def List.map_filter_def)
qed

text \<open>An instance: an object that is a class and an array is announced as a class.\<close>

theorem category_first_match_witness:
  "InDumpSpace ex_state ex_class_array_object \<and>
   IsClass ex_class_array_object \<and> IsArrayInstance ex_class_array_object \<and>
   \<not> isl (Callback ex_cfg ex_class_array_object ex_state) \<and>
   List.map_filter category_label
     (written ex_state (projr (Callback ex_cfg ex_class_array_object ex_state))) = [CatClass]"
proof -
  have a: "InDumpSpace ex_state ex_class_array_object"
    by (simp add: ex_defs InDumpSpace_def)
  have c: "spec_category ex_class_array_object = CatClass"
    by (simp add: spec_category_def spec_precedence_def ex_defs)
  from category_first_match[OF a ex_class_array_visit] a c show ?thesis
    by (simp add: ex_class_array_visit) (simp add: ex_defs)
qed

subsection \<open>C6\<close>

text \<open>
  C6: an object that the traversal delivers and that lies outside the dump space leaves
  the whole state of the callback as it was, statistics and stream alike; a traversal
  with such an object ends exactly as the traversal without it.
\<close>

theorem outside_dump_space_no_effect:
  assumes "address obj \<noteq> 0" and "\<not> InDumpSpace state obj"
  shows "Callback cfg obj state = Inr state \<and> Walk cfg (obj # objs) state = Walk cfg objs state"
  using assms by (simp add: Callback_outside)

text \<open>An instance: an object at an address outside the example space.\<close>

theorem outside_dump_space_no_effect_witness:
  "address ex_outside_object \<noteq> 0 \<and> \<not> InDumpSpace ex_state ex_outside_object \<and>
   Callback ex_cfg ex_outside_object ex_state = Inr ex_state \<and>
   Walk ex_cfg [ex_outside_object, ex_object] ex_state = Walk ex_cfg [ex_object] ex_state"
proof -
  have a: "address ex_outside_object \<noteq> 0"
    by (simp add: ex_defs)
  have b: "\<not> InDumpSpace ex_state ex_outside_object"
    by (simp add: ex_defs InDumpSpace_def)
  from outside_dump_space_no_effect[OF a b, of ex_cfg "[ex_object]"] a b show ?thesis
    by simp
qed

subsection \<open>C7\<close>

text \<open>
  C7: a run on a heap snapshot that has rendered everything up to and including the
  statistics block, and whose lookup of the companion artifact (by the stored location,
  behind the host prefix when there is one) finds nothing, ends with the exit status
  \<^verbatim>\<open>EXIT_SUCCESS\<close>; its stream is the stream with the statistics block, unchanged, followed
  by the location lines and the marker \<^verbatim>\<open>NOT FOUND\<close>.
\<close>

theorem companion_not_found_exit_success:
  assumes "args \<noteq> []"
    and "parse_options sys args arguments_init = Inr a"
    and "arg_oat_filename a = None"
    and "arg_image_filename a = Some image_filename"
    and "Runtime_Create sys (runtime_options a image_filename) = Some runtime"
    and "2 \<le> length (Heap_GetSpaces runtime)"
    and "Heap_GetSpaces runtime ! (length (Heap_GetSpaces runtime) - 2) = Some image_space"
    and "IsValid (GetImageHeader image_space)"
    and "ImageDump_Dump_heap sys runtime image_filename \<lparr>stream = [], calls = []\<rparr>
           (as_Space image_space) (GetImageHeader image_space) = Inr io1"
    and "address (GetImageRoot (GetImageHeader image_space) (kOatLocation (cfg_of sys))) \<noteq> 0"
    and "FindOatFileFromOatLocation runtime
           (if arg_host_prefix a \<noteq> []
            then arg_host_prefix a @
                 ToModifiedUtf8 (GetImageRoot (GetImageHeader image_space) (kOatLocation (cfg_of sys)))
            else ToModifiedUtf8 (GetImageRoot (GetImageHeader image_space) (kOatLocation (cfg_of sys))))
         = None"
  shows "\<exists>fin before lines stats0 location.
           oatdump sys args = Inr fin \<and>
           exit_status fin = EXIT_SUCCESS \<and>
           stream io1 = before @ [Text ''STATS:\<newline>'', Flush] @ lines @
                        Stats_Dump_code_bytes stats0 @ [Text ''\<newline>'', Flush] \<and>
           stream (final_io fin) =
             stream io1 @ [Text ''OAT LOCATION:\<newline>'', Flush] @ location @
             [Text ''NOT FOUND\<newline>'', Flush]"
proof -
  let ?header = "GetImageHeader image_space"
  let ?io0 = "\<lparr>stream = [], calls = []\<rparr> :: 'a io"
  from ImageDump_Dump_oat_location_not_found[OF assms(10,11), of io1]
  obtain location io2 where
    l: "ImageDump_Dump_oat_location sys runtime (arg_host_prefix a) ?header io1 = Inr io2"
    and s: "stream io2 = stream io1 @ [Text ''OAT LOCATION:\<newline>'', Flush] @ location @
                          [Text ''NOT FOUND\<newline>'', Flush]"
    by fastforce
  from assms(9) l have
    "ImageDump_Dump sys runtime image_filename (arg_host_prefix a) ?io0
       (as_Space image_space) ?header = Inr io2"
    by (simp add: ImageDump_Dump_def and_then_def)
  with assms(5-8) have
    "oatdump_image sys a image_filename = Inr (exit_success (arg_output a) io2)"
    by (simp add: oatdump_image_def and_then_def)
  with assms(1-4) have o: "oatdump sys args = Inr (exit_success (arg_output a) io2)"
    by (simp add: oatdump_def)
  from ImageDump_Dump_heap_stream[OF assms(9)] obtain before lines stats0 where
    h: "stream io1 = before @ [Text ''STATS:\<newline>'', Flush] @ lines @
                        Stats_Dump_code_bytes stats0 @ [Text ''\<newline>'', Flush]"
    by blast
  have "exit_status (exit_success (arg_output a) io2) = EXIT_SUCCESS"
    "stream (final_io (exit_success (arg_output a) io2)) = stream io2"
    by (simp_all add: exit_success_def)
  with o h s show ?thesis by metis
qed

text \<open>An instance: a run with an image and a host prefix whose companion artifact is not found.\<close>

theorem companion_not_found_exit_success_witness:
  "ex_args \<noteq> [] \<and>
   FindOatFileFromOatLocation ex_runtime ''/root/system/foo.art'' = None \<and>
   \<not> isl (oatdump ex_sys ex_args) \<and>
   exit_status (projr (oatdump ex_sys ex_args)) = EXIT_SUCCESS \<and>
   Text ''STATS:\<newline>'' \<in> set (stream (final_io (projr (oatdump ex_sys ex_args)))) \<and>
   Text ''NOT FOUND\<newline>'' \<in> set (stream (final_io (projr (oatdump ex_sys ex_args))))"
proof -
  let ?a = "arguments_init\<lparr>arg_image_filename := Some ''/system/framework/boot.art'',
              arg_host_prefix := ''/root''\<rparr>"
  have a1: "ex_args \<noteq> []" by (simp add: ex_args_def)
  have a2: "parse_options ex_sys ex_args arguments_init = Inr ?a"
    by (simp add: ex_args_def starts_with_def substr_def)
  have a3: "arg_oat_filename ?a = None" by (simp add: arguments_init_def)
  have a4: "arg_image_filename ?a = Some ''/system/framework/boot.art''" by simp
  have a5: "Runtime_Create ex_sys (runtime_options ?a ''/system/framework/boot.art'') = Some ex_runtime"
    by (simp add: ex_sys_def)
  have a6: "2 \<le> length (Heap_GetSpaces ex_runtime)" by (simp add: ex_runtime_def)
  have a7: "Heap_GetSpaces ex_runtime ! (length (Heap_GetSpaces ex_runtime) - 2) = Some ex_image_space"
    by (simp add: ex_runtime_def)
  have a8: "IsValid (GetImageHeader ex_image_space)"
    by (simp add: ex_image_space_def ex_image_header_def)
  have a9: "ImageDump_Dump_heap ex_sys ex_runtime ''/system/framework/boot.art''
      \<lparr>stream = [], calls = []\<rparr> (as_Space ex_image_space) (GetImageHeader ex_image_space) =
      Inr (projr (ImageDump_Dump_heap ex_sys ex_runtime ''/system/framework/boot.art''
      \<lparr>stream = [], calls = []\<rparr> ex_space ex_image_header))"
    using ex_heap_dumped by (simp add: ex_image_space_def)
  have a10: "address (GetImageRoot (GetImageHeader ex_image_space) (kOatLocation (cfg_of ex_sys))) \<noteq> 0"
    by (simp add: ex_sys_defs ex_defs)
  have l: "ToModifiedUtf8 (GetImageRoot (GetImageHeader ex_image_space) (kOatLocation (cfg_of ex_sys)))
      = ''/system/foo.art''"
    by (simp add: ex_sys_defs ex_defs)
  have a11: "FindOatFileFromOatLocation ex_runtime
           (if arg_host_prefix ?a \<noteq> []
            then arg_host_prefix ?a @
                 ToModifiedUtf8 (GetImageRoot (GetImageHeader ex_image_space) (kOatLocation (cfg_of ex_sys)))
            else ToModifiedUtf8 (GetImageRoot (GetImageHeader ex_image_space) (kOatLocation (cfg_of ex_sys))))
         = None"
    by (simp add: ex_runtime_def)
  from companion_not_found_exit_success[OF a1 a2 a3 a4 a5 a6 a7 a8 a9 a10 a11]
  obtain fin before lines stats0 location where
    "oatdump ex_sys ex_args = Inr fin" "exit_status fin = EXIT_SUCCESS"
    "stream (final_io fin) =
       (before @ [Text ''STATS:\<newline>'', Flush] @ lines @
        Stats_Dump_code_bytes stats0 @ [Text ''\<newline>'', Flush]) @
       [Text ''OAT LOCATION:\<newline>'', Flush] @ location @ [Text ''NOT FOUND\<newline>'', Flush]"
    by metis
  moreover have "FindOatFileFromOatLocation ex_runtime ''/root/system/foo.art'' = None"
    by (simp add: ex_runtime_def)
  ultimately show ?thesis using a1 by simp
qed

subsection \<open>C8\<close>

text \<open>
  C8: with a non-empty host prefix, what lines 275-294 do is decided by the class linker's
  answer at the host prefix followed by the stored location: \<^verbatim>\<open>NOT FOUND\<close> when it finds
  nothing there, the dump of the artifact it finds there otherwise. Likewise a source
  unit is opened at the host prefix followed by its stored location (lines 122-131):
  \<^verbatim>\<open>NOT FOUND\<close> when nothing opens there, the classes of what opens there otherwise. The
  lookups recorded are these two, each with the concatenated string.
\<close>

theorem host_prefix_prepended_to_locations:
  assumes "host_prefix \<noteq> []"
    and "stored = ToModifiedUtf8 (GetImageRoot image_header (kOatLocation (cfg_of sys)))"
    and "dex_location = GetDexFileLocation oat_dex_file"
  shows "(address (GetImageRoot image_header (kOatLocation (cfg_of sys))) \<noteq> 0 \<longrightarrow>
           (FindOatFileFromOatLocation runtime (host_prefix @ stored) = None \<longrightarrow>
              ImageDump_Dump_oat_location sys runtime host_prefix image_header io =
                Inr \<lparr>stream = stream io @
                       [Text ''OAT LOCATION:\<newline>'', Flush, Val (ArgStr stored),
                        Text '' ('', Val (ArgStr (host_prefix @ stored)), Text '')'',
                        Text ''\<newline>'', Text ''NOT FOUND\<newline>'', Flush],
                     calls = calls io @
                       [Call_FindOatFileFromOatLocation (host_prefix @ stored)]\<rparr>) \<and>
           (\<forall>found. FindOatFileFromOatLocation runtime (host_prefix @ stored) = Some found \<longrightarrow>
              ImageDump_Dump_oat_location sys runtime host_prefix image_header io =
                OatDump_Dump sys (host_prefix @ stored) host_prefix
                  \<lparr>stream = stream io @
                       [Text ''OAT LOCATION:\<newline>'', Flush, Val (ArgStr stored),
                        Text '' ('', Val (ArgStr (host_prefix @ stored)), Text '')'',
                        Text ''\<newline>'', Text ''\<newline>'', Flush],
                   calls = calls io @
                       [Call_FindOatFileFromOatLocation (host_prefix @ stored)]\<rparr>
                  found)) \<and>
         (DexFile_Open sys (host_prefix @ dex_location) = None \<longrightarrow>
            DumpOatDexFile sys host_prefix io oat_file oat_dex_file =
              Inr \<lparr>stream = stream io @
                     [Text ''OAT DEX FILE:\<newline>'', Text ''location: '',
                      Val (ArgStr dex_location),
                      Text '' ('', Val (ArgStr (host_prefix @ dex_location)), Text '')'',
                      Text ''\<newline>'',
                      StringPrintf ''checksum: %08x\<newline>''
                        [ArgU32 (GetDexFileLocationChecksum oat_dex_file)],
                      Text ''NOT FOUND\<newline>\<newline>''],
                   calls = calls io @ [Call_DexFile_Open (host_prefix @ dex_location)]\<rparr>) \<and>
         (\<forall>opened. DexFile_Open sys (host_prefix @ dex_location) = Some opened \<longrightarrow>
            DumpOatDexFile sys host_prefix io oat_file oat_dex_file =
              and_then
                (DumpOatDexFile_classes (cfg_of sys) oat_file oat_dex_file opened 0
                   (stream io @
                    [Text ''OAT DEX FILE:\<newline>'', Text ''location: '',
                     Val (ArgStr dex_location),
                     Text '' ('', Val (ArgStr (host_prefix @ dex_location)), Text '')'',
                     Text ''\<newline>'',
                     StringPrintf ''checksum: %08x\<newline>''
                       [ArgU32 (GetDexFileLocationChecksum oat_dex_file)]]))
                (\<lambda>os. Inr \<lparr>stream = os @ [Flush],
                            calls = calls io @
                              [Call_DexFile_Open (host_prefix @ dex_location)]\<rparr>)) \<and>
         (\<forall>io'. ImageDump_Dump_oat_location sys runtime host_prefix image_header io = Inr io' \<longrightarrow>
            take (Suc (length (calls io))) (calls io') =
              calls io @ [Call_FindOatFileFromOatLocation (host_prefix @ stored)]) \<and>
         (\<forall>io'. DumpOatDexFile sys host_prefix io oat_file oat_dex_file = Inr io' \<longrightarrow>
            calls io' = calls io @ [Call_DexFile_Open (host_prefix @ dex_location)])"
proof -
  have lookups:
    "(address (GetImageRoot image_header (kOatLocation (cfg_of sys))) \<noteq> 0 \<longrightarrow>
           (FindOatFileFromOatLocation runtime (host_prefix @ stored) = None \<longrightarrow>
              ImageDump_Dump_oat_location sys runtime host_prefix image_header io =
                Inr \<lparr>stream = stream io @
                       [Text ''OAT LOCATION:\<newline>'', Flush, Val (ArgStr stored),
                        Text '' ('', Val (ArgStr (host_prefix @ stored)), Text '')'',
                        Text ''\<newline>'', Text ''NOT FOUND\<newline>'', Flush],
                     calls = calls io @
                       [Call_FindOatFileFromOatLocation (host_prefix @ stored)]\<rparr>) \<and>
           (\<forall>found. FindOatFileFromOatLocation runtime (host_prefix @ stored) = Some found \<longrightarrow>
              ImageDump_Dump_oat_location sys runtime host_prefix image_header io =
                OatDump_Dump sys (host_prefix @ stored) host_prefix
                  \<lparr>stream = stream io @
                       [Text ''OAT LOCATION:\<newline>'', Flush, Val (ArgStr stored),
                        Text '' ('', Val (ArgStr (host_prefix @ stored)), Text '')'',
                        Text ''\<newline>'', Text ''\<newline>'', Flush],
                   calls = calls io @
                       [Call_FindOatFileFromOatLocation (host_prefix @ stored)]\<rparr>
                  found))"
    using assms by (simp add: ImageDump_Dump_oat_location_def Let_def)
  have opens:
    "(DexFile_Open sys (host_prefix @ dex_location) = None \<longrightarrow>
            DumpOatDexFile sys host_prefix io oat_file oat_dex_file =
              Inr \<lparr>stream = stream io @
                     [Text ''OAT DEX FILE:\<newline>'', Text ''location: '',
                      Val (ArgStr dex_location),
                      Text '' ('', Val (ArgStr (host_prefix @ dex_location)), Text '')'',
                      Text ''\<newline>'',
                      StringPrintf ''checksum: %08x\<newline>''
                        [ArgU32 (GetDexFileLocationChecksum oat_dex_file)],
                      Text ''NOT FOUND\<newline>\<newline>''],
                   calls = calls io @ [Call_DexFile_Open (host_prefix @ dex_location)]\<rparr>) \<and>
         (\<forall>opened. DexFile_Open sys (host_prefix @ dex_location) = Some opened \<longrightarrow>
            DumpOatDexFile sys host_prefix io oat_file oat_dex_file =
              and_then
                (DumpOatDexFile_classes (cfg_of sys) oat_file oat_dex_file opened 0
                   (stream io @
                    [Text ''OAT DEX FILE:\<newline>'', Text ''location: '',
                     Val (ArgStr dex_location),
                     Text '' ('', Val (ArgStr (host_prefix @ dex_location)), Text '')'',
                     Text ''\<newline>'',
                     StringPrintf ''checksum: %08x\<newline>''
                       [ArgU32 (GetDexFileLocationChecksum oat_dex_file)]]))
                (\<lambda>os. Inr \<lparr>stream = os @ [Flush],
                            calls = calls io @
                              [Call_DexFile_Open (host_prefix @ dex_location)]\<rparr>))"
    using assms by (simp add: DumpOatDexFile_def Let_def)
  have trace1:
    "\<forall>io'. ImageDump_Dump_oat_location sys runtime host_prefix image_header io = Inr io' \<longrightarrow>
            take (Suc (length (calls io))) (calls io') =
              calls io @ [Call_FindOatFileFromOatLocation (host_prefix @ stored)]"
  proof (intro allI impI)
    fix io'
    assume "ImageDump_Dump_oat_location sys runtime host_prefix image_header io = Inr io'"
    from ImageDump_Dump_oat_location_calls[OF this] assms
    show "take (Suc (length (calls io))) (calls io') =
              calls io @ [Call_FindOatFileFromOatLocation (host_prefix @ stored)]"
      by auto
  qed
  have trace2:
    "\<forall>io'. DumpOatDexFile sys host_prefix io oat_file oat_dex_file = Inr io' \<longrightarrow>
            calls io' = calls io @ [Call_DexFile_Open (host_prefix @ dex_location)]"
  proof (intro allI impI)
    fix io'
    assume "DumpOatDexFile sys host_prefix io oat_file oat_dex_file = Inr io'"
    from DumpOatDexFile_calls[OF this] assms
    show "calls io' = calls io @ [Call_DexFile_Open (host_prefix @ dex_location)]"
      by simp
  qed
  from lookups opens trace1 trace2 show ?thesis by (intro conjI) blast+
qed

text \<open>
  An instance: the prefix \<^verbatim>\<open>/root\<close> and the stored location \<^verbatim>\<open>/system/foo.art\<close>, once with
  nothing to find and once with the artifact and its source unit found under the prefix
  only.
\<close>

theorem host_prefix_prepended_to_locations_witness:
  "''/root'' \<noteq> [] \<and>
   ToModifiedUtf8 (GetImageRoot ex_image_header (kOatLocation (cfg_of ex_sys))) = ''/system/foo.art'' \<and>
   GetDexFileLocation ex_oat_dex_file = ''/system/framework/core.jar'' \<and>
   address (GetImageRoot ex_image_header (kOatLocation (cfg_of ex_sys))) \<noteq> 0 \<and>
   FindOatFileFromOatLocation ex_runtime ''/root/system/foo.art'' = None \<and>
   ImageDump_Dump_oat_location ex_sys ex_runtime ''/root'' ex_image_header
     \<lparr>stream = [], calls = []\<rparr> =
     Inr \<lparr>stream =
            [Text ''OAT LOCATION:\<newline>'', Flush, Val (ArgStr ''/system/foo.art''),
             Text '' ('', Val (ArgStr ''/root/system/foo.art''), Text '')'',
             Text ''\<newline>'', Text ''NOT FOUND\<newline>'', Flush],
          calls = [Call_FindOatFileFromOatLocation ''/root/system/foo.art'']\<rparr> \<and>
   FindOatFileFromOatLocation ex_prefixed_runtime ''/system/foo.art'' = None \<and>
   FindOatFileFromOatLocation ex_prefixed_runtime ''/root/system/foo.art'' = Some ex_oat_file \<and>
   DexFile_Open ex_prefixed_sys ''/system/framework/core.jar'' = None \<and>
   DexFile_Open ex_prefixed_sys ''/root/system/framework/core.jar'' = Some ex_dex_file \<and>
   ImageDump_Dump_oat_location ex_prefixed_sys ex_prefixed_runtime ''/root'' ex_image_header
     \<lparr>stream = [], calls = []\<rparr> =
     OatDump_Dump ex_prefixed_sys ''/root/system/foo.art'' ''/root''
       \<lparr>stream =
          [Text ''OAT LOCATION:\<newline>'', Flush, Val (ArgStr ''/system/foo.art''),
           Text '' ('', Val (ArgStr ''/root/system/foo.art''), Text '')'',
           Text ''\<newline>'', Text ''\<newline>'', Flush],
        calls = [Call_FindOatFileFromOatLocation ''/root/system/foo.art'']\<rparr> ex_oat_file \<and>
   \<not> isl (ImageDump_Dump_oat_location ex_prefixed_sys ex_prefixed_runtime ''/root''
            ex_image_header \<lparr>stream = [], calls = []\<rparr>) \<and>
   List.map_filter method_ordinal (stream (projr
     (ImageDump_Dump_oat_location ex_prefixed_sys ex_prefixed_runtime ''/root''
        ex_image_header \<lparr>stream = [], calls = []\<rparr>))) = [0, 1] \<and>
   calls (projr
     (ImageDump_Dump_oat_location ex_prefixed_sys ex_prefixed_runtime ''/root''
        ex_image_header \<lparr>stream = [], calls = []\<rparr>)) =
     [Call_FindOatFileFromOatLocation ''/root/system/foo.art'',
      Call_DexFile_Open ''/root/system/framework/core.jar''] \<and>
   DumpOatDexFile ex_sys ''/root'' \<lparr>stream = [], calls = []\<rparr> ex_oat_file ex_oat_dex_file =
     Inr \<lparr>stream =
            [Text ''OAT DEX FILE:\<newline>'', Text ''location: '',
             Val (ArgStr ''/system/framework/core.jar''),
             Text '' ('', Val (ArgStr ''/root/system/framework/core.jar''), Text '')'',
             Text ''\<newline>'', StringPrintf ''checksum: %08x\<newline>'' [ArgU32 0x1234],
             Text ''NOT FOUND\<newline>\<newline>''],
          calls = [Call_DexFile_Open ''/root/system/framework/core.jar'']\<rparr>"
proof -
  let ?io = "\<lparr>stream = [], calls = []\<rparr> :: 32 io"
  have p: "''/root'' \<noteq> []" by simp
  have l: "''/system/foo.art'' =
      ToModifiedUtf8 (GetImageRoot ex_image_header (kOatLocation (cfg_of ex_sys)))"
    by (simp add: ex_sys_defs ex_defs)
  have l': "''/system/foo.art'' =
      ToModifiedUtf8 (GetImageRoot ex_image_header (kOatLocation (cfg_of ex_prefixed_sys)))"
    by (simp add: ex_prefixed_sys_def ex_sys_defs ex_defs)
  have d: "''/system/framework/core.jar'' = GetDexFileLocation ex_oat_dex_file"
    by (simp add: ex_oat_dex_file_def)
  have r: "address (GetImageRoot ex_image_header (kOatLocation (cfg_of ex_sys))) \<noteq> 0"
    "address (GetImageRoot ex_image_header (kOatLocation (cfg_of ex_prefixed_sys))) \<noteq> 0"
    by (simp_all add: ex_prefixed_sys_def ex_sys_defs ex_defs)
  have f: "FindOatFileFromOatLocation ex_runtime ''/root/system/foo.art'' = None"
    "FindOatFileFromOatLocation ex_prefixed_runtime ''/system/foo.art'' = None"
    "FindOatFileFromOatLocation ex_prefixed_runtime ''/root/system/foo.art'' = Some ex_oat_file"
    by (simp_all add: ex_runtime_def ex_prefixed_runtime_def)
  have o: "DexFile_Open ex_sys ''/root/system/framework/core.jar'' = None"
    "DexFile_Open ex_prefixed_sys ''/system/framework/core.jar'' = None"
    "DexFile_Open ex_prefixed_sys ''/root/system/framework/core.jar'' = Some ex_dex_file"
    by (simp_all add: ex_sys_def ex_prefixed_sys_def)
  have c: "GetDexFileLocationChecksum ex_oat_dex_file = 0x1234"
    by (simp add: ex_oat_dex_file_def)
  note t1 = host_prefix_prepended_to_locations[OF p l d, of ex_runtime ?io ex_oat_file]
  note t2 = host_prefix_prepended_to_locations[OF p l' d, of ex_prefixed_runtime ?io ex_oat_file]
  from t1 r(1) f(1) o(1) have
    "ImageDump_Dump_oat_location ex_sys ex_runtime ''/root'' ex_image_header ?io =
     Inr \<lparr>stream =
            [Text ''OAT LOCATION:\<newline>'', Flush, Val (ArgStr ''/system/foo.art''),
             Text '' ('', Val (ArgStr ''/root/system/foo.art''), Text '')'',
             Text ''\<newline>'', Text ''NOT FOUND\<newline>'', Flush],
          calls = [Call_FindOatFileFromOatLocation ''/root/system/foo.art'']\<rparr>"
    "DumpOatDexFile ex_sys ''/root'' ?io ex_oat_file ex_oat_dex_file =
     Inr \<lparr>stream =
            [Text ''OAT DEX FILE:\<newline>'', Text ''location: '',
             Val (ArgStr ''/system/framework/core.jar''),
             Text '' ('', Val (ArgStr ''/root/system/framework/core.jar''), Text '')'',
             Text ''\<newline>'', StringPrintf ''checksum: %08x\<newline>'' [ArgU32 0x1234],
             Text ''NOT FOUND\<newline>\<newline>''],
          calls = [Call_DexFile_Open ''/root/system/framework/core.jar'']\<rparr>"
    by (simp_all add: c)
  moreover from t2 r(2) f(3) have
    "ImageDump_Dump_oat_location ex_prefixed_sys ex_prefixed_runtime ''/root'' ex_image_header ?io =
     OatDump_Dump ex_prefixed_sys ''/root/system/foo.art'' ''/root''
       \<lparr>stream =
          [Text ''OAT LOCATION:\<newline>'', Flush, Val (ArgStr ''/system/foo.art''),
           Text '' ('', Val (ArgStr ''/root/system/foo.art''), Text '')'',
           Text ''\<newline>'', Text ''\<newline>'', Flush],
        calls = [Call_FindOatFileFromOatLocation ''/root/system/foo.art'']\<rparr> ex_oat_file"
    by simp
  ultimately show ?thesis
    using p l[symmetric] d[symmetric] r(1) f o(2,3) ex_prefixed_dump
    by (intro conjI) assumption+
qed

subsection \<open>C9\<close>

text \<open>
  C9: for a class definition without class data \<^verbatim>\<open>DumpOatClass\<close> returns at once, the stream
  untouched and no fault raised; the loop over the class definitions has written the
  entry of the class and goes on with the next index.
\<close>

theorem marker_class_empty_method_sequence:
  assumes "GetClassData class_def = None"
  shows "DumpOatClass cfg os oat_file oat_class dex_file class_def = Inr os \<and>
         (\<forall>class_def_index oat_dex_file.
            class_def_index < NumClassDefs dex_file \<and>
            GetClassDef dex_file class_def_index = class_def \<and>
            GetOatClass oat_dex_file class_def_index = Some oat_class \<longrightarrow>
            DumpOatDexFile_classes cfg oat_file oat_dex_file dex_file class_def_index os =
            DumpOatDexFile_classes cfg oat_file oat_dex_file dex_file (class_def_index + 1)
              (os @
               [StringPrintf ''%zd: %s (type_idx=%d) (''
                  [ArgSize (of_nat class_def_index), ArgStr (GetClassDescriptor class_def),
                   ArgU32 (class_idx class_def)],
                Val (ArgStatus (OatClass_GetStatus oat_class)),
                Text '')\<newline>'']))"
proof (intro conjI allI impI)
  show "DumpOatClass cfg os oat_file oat_class dex_file class_def = Inr os"
    using assms by (simp add: DumpOatClass_def)
next
  fix class_def_index and oat_dex_file :: "'a OatDexFile"
  assume h: "class_def_index < NumClassDefs dex_file \<and>
            GetClassDef dex_file class_def_index = class_def \<and>
            GetOatClass oat_dex_file class_def_index = Some oat_class"
  show "DumpOatDexFile_classes cfg oat_file oat_dex_file dex_file class_def_index os =
            DumpOatDexFile_classes cfg oat_file oat_dex_file dex_file (class_def_index + 1)
              (os @
               [StringPrintf ''%zd: %s (type_idx=%d) (''
                  [ArgSize (of_nat class_def_index), ArgStr (GetClassDescriptor class_def),
                   ArgU32 (class_idx class_def)],
                Val (ArgStatus (OatClass_GetStatus oat_class)),
                Text '')\<newline>''])"
    using h assms
    by (subst DumpOatDexFile_classes.simps) (simp add: DumpOatClass_def)
qed

text \<open>An instance: the marker class at index 0 of the example source unit.\<close>

theorem marker_class_empty_method_sequence_witness:
  "GetClassData ex_marker_class_def = None \<and>
   DumpOatClass ex_cfg [] ex_oat_file ex_oat_class ex_dex_file ex_marker_class_def = Inr [] \<and>
   0 < NumClassDefs ex_dex_file \<and> GetClassDef ex_dex_file 0 = ex_marker_class_def \<and>
   GetOatClass ex_oat_dex_file 0 = Some ex_oat_class \<and>
   DumpOatDexFile_classes ex_cfg ex_oat_file ex_oat_dex_file ex_dex_file 0 [] =
     DumpOatDexFile_classes ex_cfg ex_oat_file ex_oat_dex_file ex_dex_file 1
       [StringPrintf ''%zd: %s (type_idx=%d) ('' [ArgSize 0, ArgStr ''LMarker;'', ArgU32 6],
        Val (ArgStatus 7), Text '')\<newline>'']"
proof -
  have a: "GetClassData ex_marker_class_def = None"
    by (simp add: ex_marker_class_def_def)
  have b: "0 < NumClassDefs ex_dex_file" "GetClassDef ex_dex_file 0 = ex_marker_class_def"
    "GetOatClass ex_oat_dex_file 0 = Some ex_oat_class"
    by (simp_all add: NumClassDefs_def GetClassDef_def ex_dex_file_def ex_oat_dex_file_def)
  from marker_class_empty_method_sequence[OF a, of ex_cfg "[]" ex_oat_file ex_oat_class ex_dex_file]
    a b show ?thesis
    by (simp add: ex_marker_class_def_def ex_oat_class_def)
qed

subsection \<open>C10\<close>

text \<open>
  C10: after any number of visits of a traversal (one that gives each live object once,
  at its own non-null address), \<^verbatim>\<open>descriptor_to_bytes\<close> and \<^verbatim>\<open>descriptor_to_count\<close> have the
  same keys, every count is at least 1, and the count that \<^verbatim>\<open>Stats::Dump\<close> reads for a key
  of \<^verbatim>\<open>descriptor_to_bytes\<close> (line 464) is found in the table and is not zero.
\<close>

theorem tables_same_keys_counts_positive:
  fixes objs :: "'w::len Object list"
  assumes "distinct (map address objs)" and "0 \<notin> set (map address objs)"
    and "Walk cfg objs (ImageDump_init space os) = Inr state"
  shows "set (map fst (descriptor_to_bytes (stats_of state))) =
           set (map fst (descriptor_to_count (stats_of state))) \<and>
         (\<forall>(d, c) \<in> set (descriptor_to_count (stats_of state)). 1 \<le> c) \<and>
         (\<forall>(d, b) \<in> set (descriptor_to_bytes (stats_of state)).
            \<exists>c. Table_index (descriptor_to_count (stats_of state)) d =
                   (c, descriptor_to_count (stats_of state)) \<and> c \<noteq> 0)"
proof -
  let ?stats = "stats_of state"
  let ?counts = "descriptor_to_count ?stats"
  have inv: "Stats_inv ?stats (visit_count space objs)"
    using assms(3) by (rule Stats_inv_after_Walk)
  have "length (map address objs) < 2 ^ LENGTH('w)"
    using assms(1,2) by (rule distinct_nonnull_length)
  then have len: "length objs < 2 ^ LENGTH('w)" by simp
  have bound: "visit_count space objs d < 2 ^ LENGTH('w)" for d
    using visit_count_le[of space objs d] len by (rule le_less_trans)
  from inv have keys: "map fst (descriptor_to_bytes ?stats) = map fst ?counts"
    unfolding Stats_inv_def by blast
  from inv have "sorted_wrt (<) (map fst (descriptor_to_bytes ?stats))"
    unfolding Stats_inv_def by blast
  with keys have "sorted_wrt (<) (map fst ?counts)" by simp
  then have dist: "distinct (map fst ?counts)" by (rule sorted_keys_distinct)
  have pos: "\<exists>c. map_of ?counts d = Some c \<and> c \<noteq> 0" if "d \<in> fst ` set ?counts" for d
    using inv bound that by (rule Stats_inv_counts)
  have a: "\<forall>(d, c) \<in> set ?counts. 1 \<le> c"
  proof (clarify)
    fix d c
    assume m: "(d, c) \<in> set ?counts"
    with dist have "map_of ?counts d = Some c" by (rule map_of_is_SomeI)
    moreover from m have "d \<in> fst ` set ?counts" by (rule rev_image_eqI) simp
    from pos[OF this] obtain c' where "map_of ?counts d = Some c'" "c' \<noteq> 0" by blast
    ultimately have "c \<noteq> 0" by simp
    then show "1 \<le> c" using word_one_le_iff[of c] by blast
  qed
  have b: "\<forall>(d, b) \<in> set (descriptor_to_bytes ?stats).
            \<exists>c. Table_index ?counts d = (c, ?counts) \<and> c \<noteq> 0"
  proof (clarify)
    fix d b
    assume "(d, b) \<in> set (descriptor_to_bytes ?stats)"
    then have "d \<in> fst ` set (descriptor_to_bytes ?stats)" by (rule rev_image_eqI) simp
    then have "d \<in> set (map fst (descriptor_to_bytes ?stats))" by simp
    with keys have "d \<in> set (map fst ?counts)" by simp
    then have "d \<in> fst ` set ?counts" by simp
    from pos[OF this] obtain c where "map_of ?counts d = Some c" "c \<noteq> 0" by blast
    then have "Table_index ?counts d = (c, ?counts) \<and> c \<noteq> 0"
      by (simp add: Table_index_def)
    then show "\<exists>c. Table_index ?counts d = (c, ?counts) \<and> c \<noteq> 0" ..
  qed
  from keys have "set (map fst (descriptor_to_bytes ?stats)) = set (map fst ?counts)"
    by simp
  with a b show ?thesis by blast
qed

text \<open>An instance: four objects, three of them in the space, two of one class.\<close>

theorem tables_same_keys_counts_positive_witness:
  "distinct (map address ex_objects) \<and> 0 \<notin> set (map address ex_objects) \<and>
   \<not> isl (Walk ex_cfg ex_objects (ImageDump_init ex_space [])) \<and>
   set (map fst (descriptor_to_bytes
          (stats_of (projr (Walk ex_cfg ex_objects (ImageDump_init ex_space [])))))) =
   set (map fst (descriptor_to_count
          (stats_of (projr (Walk ex_cfg ex_objects (ImageDump_init ex_space [])))))) \<and>
   list_all (\<lambda>(d, c). 1 \<le> c)
     (descriptor_to_count
        (stats_of (projr (Walk ex_cfg ex_objects (ImageDump_init ex_space []))))) \<and>
   descriptor_to_count (stats_of (projr (Walk ex_cfg ex_objects (ImageDump_init ex_space [])))) =
     [(''Ljava/lang/Object;'', 1), (''Ljava/lang/reflect/Method;'', 2)]"
proof -
  have a: "distinct (map address ex_objects)"
    by (simp add: ex_defs)
  have b: "0 \<notin> set (map address ex_objects)"
    by (simp add: ex_defs)
  have r: "\<not> isl (Walk ex_cfg ex_objects (ImageDump_init ex_space []))"
    by (simp add: ex_defs Callback_defs)
  then have e: "Walk ex_cfg ex_objects (ImageDump_init ex_space []) =
      Inr (projr (Walk ex_cfg ex_objects (ImageDump_init ex_space [])))"
    by simp
  have c: "descriptor_to_count
      (stats_of (projr (Walk ex_cfg ex_objects (ImageDump_init ex_space [])))) =
     [(''Ljava/lang/Object;'', 1), (''Ljava/lang/reflect/Method;'', 2)]"
    by (simp add: ex_defs Callback_defs)
  from tables_same_keys_counts_positive[OF a b e] a b r c show ?thesis
    by (simp only: list_all_iff) blast
qed

end
